theory Spec2Isabelle
  imports Main "HOL-Library.Word" "HOL-Library.Sublist"
begin

unbundle bit_operations_syntax

section \<open>Bytes, errors and the struct module\<close>

text \<open>
  Python \<open>bytes\<close> are lists of 8-bit words, Python integers are \<open>int\<close>, and every
  exception the modelled code can raise is a value of \<open>error\<close>; a function that can raise
  returns \<open>error + 'a\<close> with \<open>Inl\<close> for the exception.
\<close>

type_synonym byte = "8 word"

datatype error =
    ValueError | StructError | TypeError | StopIteration | IndexError
  | UnicodeEncodeError | AttributeError | AssertionError

definition ebind :: "error + 'a \<Rightarrow> ('a \<Rightarrow> error + 'b) \<Rightarrow> error + 'b" where
  "ebind m f = (case m of Inl e \<Rightarrow> Inl e | Inr v \<Rightarrow> f v)"

text \<open>ASCII text as bytes, for the byte literals of the source (\<open>b"RFB 000.000\n"\<close>).\<close>

definition ascii :: "string \<Rightarrow> byte list" where
  "ascii s = map (\<lambda>c. of_nat (of_char c)) s"

text \<open>Big-endian integers, as \<open>struct\<close> reads and writes them under the \<open>!\<close> prefix.\<close>

definition be_uint :: "byte list \<Rightarrow> int" where
  "be_uint bs = foldl (\<lambda>acc b. acc * 256 + uint b) 0 bs"

definition be16 :: "int \<Rightarrow> byte list" where
  "be16 v = [of_int (v div 256), of_int v]"

definition be32 :: "int \<Rightarrow> byte list" where
  "be32 v = [of_int (v div 16777216), of_int (v div 65536), of_int (v div 256), of_int v]"

text \<open>
  The part of Python's \<open>struct\<close> module the source uses: network byte order (\<open>!\<close>), an
  optional decimal repeat count, and the codes \<open>x B H I L i ? s\<close>; white space between
  two items is skipped. Any other character in a format is refused with \<open>struct.error\<close>,
  as CPython does for a character that is not a format code. (CPython knows more codes,
  for the other integer sizes and for floats; no format of the source has one, and the
  model refuses them too.) A format is compiled before any data is looked at, so a bad
  format raises whatever the buffer holds.
\<close>

datatype field = FPad nat | FBytes nat | FU8 | FU16 | FU32 | FI32 | FBool

datatype sval = VInt int | VBool bool | VBytes "byte list"

definition is_digit_char :: "char \<Rightarrow> bool" where
  "is_digit_char c = (48 \<le> (of_char c :: nat) \<and> (of_char c :: nat) \<le> 57)"

definition is_space_char :: "char \<Rightarrow> bool" where
  "is_space_char c = ((of_char c :: nat) = 32 \<or> (9 \<le> (of_char c :: nat) \<and> (of_char c :: nat) \<le> 13))"

definition fields_of_code :: "nat \<Rightarrow> char \<Rightarrow> field list option" where
  "fields_of_code n c =
     (if c = CHR ''x'' then Some [FPad n]
      else if c = CHR ''s'' then Some [FBytes n]
      else if c = CHR ''B'' then Some (replicate n FU8)
      else if c = CHR ''H'' then Some (replicate n FU16)
      else if c = CHR ''I'' \<or> c = CHR ''L'' then Some (replicate n FU32)
      else if c = CHR ''i'' then Some (replicate n FI32)
      else if c = CHR ''?'' then Some (replicate n FBool)
      else None)"

fun parse_fields :: "string \<Rightarrow> nat option \<Rightarrow> error + field list" where
  "parse_fields [] None = Inr []"
| "parse_fields [] (Some n) = Inl StructError"
| "parse_fields (c # cs) cnt =
     (if is_space_char c \<and> cnt = None then parse_fields cs None
      else if is_digit_char c
      then parse_fields cs (Some (10 * (case cnt of None \<Rightarrow> 0 | Some n \<Rightarrow> n) + (of_char c - 48)))
      else (case fields_of_code (case cnt of None \<Rightarrow> 1 | Some n \<Rightarrow> n) c of
              None \<Rightarrow> Inl StructError
            | Some fs \<Rightarrow> ebind (parse_fields cs None) (\<lambda>rest. Inr (fs @ rest))))"

definition parse_format :: "string \<Rightarrow> error + field list" where
  "parse_format fmt =
     (case fmt of
        [] \<Rightarrow> Inl StructError
      | c # cs \<Rightarrow> if c = CHR ''!'' then parse_fields cs None else Inl StructError)"

fun fsize :: "field \<Rightarrow> nat" where
  "fsize (FPad n) = n"
| "fsize (FBytes n) = n"
| "fsize FU8 = 1"
| "fsize FU16 = 2"
| "fsize FU32 = 4"
| "fsize FI32 = 4"
| "fsize FBool = 1"

definition calcsize :: "field list \<Rightarrow> nat" where
  "calcsize fs = sum_list (map fsize fs)"

fun unpack_fields :: "field list \<Rightarrow> byte list \<Rightarrow> sval list" where
  "unpack_fields [] bs = []"
| "unpack_fields (FPad n # fs) bs = unpack_fields fs (drop n bs)"
| "unpack_fields (FBytes n # fs) bs = VBytes (take n bs) # unpack_fields fs (drop n bs)"
| "unpack_fields (FU8 # fs) bs = VInt (be_uint (take 1 bs)) # unpack_fields fs (drop 1 bs)"
| "unpack_fields (FU16 # fs) bs = VInt (be_uint (take 2 bs)) # unpack_fields fs (drop 2 bs)"
| "unpack_fields (FU32 # fs) bs = VInt (be_uint (take 4 bs)) # unpack_fields fs (drop 4 bs)"
| "unpack_fields (FI32 # fs) bs =
     VInt (if be_uint (take 4 bs) \<ge> 2147483648 then be_uint (take 4 bs) - 4294967296
           else be_uint (take 4 bs)) # unpack_fields fs (drop 4 bs)"
| "unpack_fields (FBool # fs) bs = VBool (be_uint (take 1 bs) \<noteq> 0) # unpack_fields fs (drop 1 bs)"

text \<open>\<open>struct.unpack(fmt, data)\<close>: the buffer must have exactly the size the format needs.\<close>

definition unpack :: "string \<Rightarrow> byte list \<Rightarrow> error + sval list" where
  "unpack fmt bs =
     ebind (parse_format fmt)
       (\<lambda>fs. if length bs = calcsize fs then Inr (unpack_fields fs bs) else Inl StructError)"

text \<open>
  One packed value. An integer code takes an integer in its range (a \<open>bool\<close> is an
  integer in Python); \<open>?\<close> takes the truth value of its argument; \<open>s\<close> takes bytes,
  cut or NUL-padded to the field's length.
\<close>

definition int_of_sval :: "sval \<Rightarrow> int option" where
  "int_of_sval v = (case v of VInt i \<Rightarrow> Some i | VBool b \<Rightarrow> Some (if b then 1 else 0) | VBytes s \<Rightarrow> None)"

definition truth_of_sval :: "sval \<Rightarrow> bool" where
  "truth_of_sval v = (case v of VInt i \<Rightarrow> i \<noteq> 0 | VBool b \<Rightarrow> b | VBytes s \<Rightarrow> s \<noteq> [])"

definition pack_int :: "int \<Rightarrow> int \<Rightarrow> (int \<Rightarrow> byte list) \<Rightarrow> sval \<Rightarrow> error + byte list" where
  "pack_int lo hi enc v =
     (case int_of_sval v of
        None \<Rightarrow> Inl StructError
      | Some i \<Rightarrow> if lo \<le> i \<and> i \<le> hi then Inr (enc i) else Inl StructError)"

fun pack_fields :: "field list \<Rightarrow> sval list \<Rightarrow> error + byte list" where
  "pack_fields [] [] = Inr []"
| "pack_fields [] (v # vs) = Inl StructError"
| "pack_fields (FPad n # fs) vs = ebind (pack_fields fs vs) (\<lambda>rest. Inr (replicate n 0 @ rest))"
| "pack_fields (f # fs) [] = Inl StructError"
| "pack_fields (FBytes n # fs) (v # vs) =
     (case v of
        VBytes s \<Rightarrow> ebind (pack_fields fs vs) (\<lambda>rest. Inr (take n s @ replicate (n - length s) 0 @ rest))
      | _ \<Rightarrow> Inl StructError)"
| "pack_fields (FU8 # fs) (v # vs) =
     ebind (pack_int 0 255 (\<lambda>i. [of_int i]) v) (\<lambda>b. ebind (pack_fields fs vs) (\<lambda>rest. Inr (b @ rest)))"
| "pack_fields (FU16 # fs) (v # vs) =
     ebind (pack_int 0 65535 be16 v) (\<lambda>b. ebind (pack_fields fs vs) (\<lambda>rest. Inr (b @ rest)))"
| "pack_fields (FU32 # fs) (v # vs) =
     ebind (pack_int 0 4294967295 be32 v) (\<lambda>b. ebind (pack_fields fs vs) (\<lambda>rest. Inr (b @ rest)))"
| "pack_fields (FI32 # fs) (v # vs) =
     ebind (pack_int (- 2147483648) 2147483647 be32 v) (\<lambda>b. ebind (pack_fields fs vs) (\<lambda>rest. Inr (b @ rest)))"
| "pack_fields (FBool # fs) (v # vs) =
     ebind (pack_fields fs vs) (\<lambda>rest. Inr ((if truth_of_sval v then 1 else 0) # rest))"

definition pack :: "string \<Rightarrow> sval list \<Rightarrow> error + byte list" where
  "pack fmt vs = ebind (parse_format fmt) (\<lambda>fs. pack_fields fs vs)"

section \<open>PixelFormat (rfb.py)\<close>

text \<open>
  The frozen dataclass \<open>PixelFormat\<close>. Its integer fields are declared \<open>u8\<close> and
  \<open>u16\<close> in the source and are natural numbers here; the upper bounds are what
  \<open>to_bytes\<close> checks when it packs.
\<close>

record PixelFormat =
  bpp :: nat
  depth :: nat
  bigendian :: bool
  truecolor :: bool
  redmax :: nat
  greenmax :: nat
  bluemax :: nat
  redshift :: nat
  greenshift :: nat
  blueshift :: nat

definition PixelFormat_default :: PixelFormat where
  "PixelFormat_default =
     \<lparr>bpp = 32, depth = 24, bigendian = False, truecolor = True,
      redmax = 255, greenmax = 255, bluemax = 255,
      redshift = 0, greenshift = 8, blueshift = 16\<rparr>"

definition STRUCT :: string where
  "STRUCT = ''!BB??HHHBBBxxx''"

definition VALIDATE :: bool where
  "VALIDATE = False"

fun bit_length :: "nat \<Rightarrow> nat" where
  "bit_length n = (if n = 0 then 0 else Suc (bit_length (n div 2)))"

text \<open>The assertions of \<open>__post_init__\<close>, which run only when \<open>VALIDATE\<close> is set.\<close>

definition max_shift_ok :: "nat \<Rightarrow> nat \<times> nat \<Rightarrow> bool" where
  "max_shift_ok b ms =
     (case ms of (mx, shift) \<Rightarrow>
        1 \<le> mx \<and> mx \<le> 65535 \<and> mx AND (mx + 1) = 0
        \<and> int shift \<le> int b - int (bit_length mx))"

definition asserts_hold :: "PixelFormat \<Rightarrow> bool" where
  "asserts_hold pf =
     ((bpp pf = 8 \<or> bpp pf = 16 \<or> bpp pf = 24 \<or> bpp pf = 32)
      \<and> 1 \<le> depth pf \<and> depth pf \<le> bpp pf
      \<and> (if truecolor pf
         then list_all (max_shift_ok (bpp pf))
                (zip [redmax pf, greenmax pf, bluemax pf] [redshift pf, greenshift pf, blueshift pf])
         else True))"

definition post_init :: "PixelFormat \<Rightarrow> error + PixelFormat" where
  "post_init pf =
     (if \<not> VALIDATE then Inr pf
      else if asserts_hold pf then Inr pf else Inl AssertionError)"

definition bypp :: "PixelFormat \<Rightarrow> nat" where
  "bypp pf = (7 + bpp pf) div 8"

definition astuple :: "PixelFormat \<Rightarrow> sval list" where
  "astuple pf =
     [VInt (int (bpp pf)), VInt (int (depth pf)), VBool (bigendian pf), VBool (truecolor pf),
      VInt (int (redmax pf)), VInt (int (greenmax pf)), VInt (int (bluemax pf)),
      VInt (int (redshift pf)), VInt (int (greenshift pf)), VInt (int (blueshift pf))]"

definition from_bytes :: "byte list \<Rightarrow> error + PixelFormat" where
  "from_bytes block =
     ebind (unpack STRUCT block)
       (\<lambda>vs. case vs of
          [VInt a, VInt b, VBool c, VBool d, VInt e, VInt f, VInt g, VInt h, VInt i, VInt j] \<Rightarrow>
            post_init \<lparr>bpp = nat a, depth = nat b, bigendian = c, truecolor = d,
                       redmax = nat e, greenmax = nat f, bluemax = nat g,
                       redshift = nat h, greenshift = nat i, blueshift = nat j\<rparr>
        | _ \<Rightarrow> Inl TypeError)"

definition to_bytes :: "PixelFormat \<Rightarrow> error + byte list" where
  "to_bytes pf = pack STRUCT (astuple pf)"

text \<open>The field types the source declares: \<open>u8\<close> for bpp, depth and the shifts, \<open>u16\<close> for the maxima.\<close>

definition wire_typed :: "PixelFormat \<Rightarrow> bool" where
  "wire_typed pf =
     (bpp pf \<le> 255 \<and> depth pf \<le> 255
      \<and> redmax pf \<le> 65535 \<and> greenmax pf \<le> 65535 \<and> bluemax pf \<le> 65535
      \<and> redshift pf \<le> 255 \<and> greenshift pf \<le> 255 \<and> blueshift pf \<le> 255)"

section \<open>The protocol client RFBClient (rfb.py)\<close>

text \<open>The values of the \<open>Encoding\<close> enumeration that the rectangle handler compares with.\<close>

definition Encoding_RAW :: int where "Encoding_RAW = 0"
definition Encoding_COPY_RECTANGLE :: int where "Encoding_COPY_RECTANGLE = 1"
definition Encoding_RRE :: int where "Encoding_RRE = 2"
definition Encoding_CORRE :: int where "Encoding_CORRE = 4"
definition Encoding_HEXTILE :: int where "Encoding_HEXTILE = 5"
definition Encoding_ZRLE :: int where "Encoding_ZRLE = 16"
definition Encoding_PSEUDO_DESKTOP_SIZE :: int where "Encoding_PSEUDO_DESKTOP_SIZE = - 223"
definition Encoding_PSEUDO_LAST_RECT :: int where "Encoding_PSEUDO_LAST_RECT = - 224"
definition Encoding_PSEUDO_CURSOR :: int where "Encoding_PSEUDO_CURSOR = - 239"
definition Encoding_PSEUDO_QEMU_EXTENDED_KEY_EVENT :: int where
  "Encoding_PSEUDO_QEMU_EXTENDED_KEY_EVENT = - 258"
definition Encoding_PSEUDO_QEMU_AUDIO :: int where "Encoding_PSEUDO_QEMU_AUDIO = - 259"

type_synonym Rect = "int \<times> int \<times> int \<times> int"
type_synonym Ver = "int \<times> int"

text \<open>
  The handler that \<open>expect\<close> stores, with the arguments stored beside it. Only the
  handlers that the modelled functions install are listed.
\<close>

datatype expected =
    H_Auth
  | H_NumberSecurityTypes
  | H_Connection
  | H_Rectangle
  | H_DecodeCopyrect int int int int
  | H_DecodeRAW int int int int
  | H_DecodeHextile "byte list option" "byte list option" int int int int int int
  | H_DecodeCORRE int int int int
  | H_DecodeCORRERectangles int int
  | H_DecodeRRE int int int int
  | H_RRESubRectangles int int
  | H_DecodeZRLE int int int int
  | H_DecodePsuedoCursor int int int int

datatype top_handler = HandleInitial | HandleExpected

text \<open>
  What the client does to the outside: the chunks it hands to the transport, the transport
  being closed, and the pauses it takes (\<open>asyncio.sleep\<close>, in milliseconds). The callbacks
  of RFBClient have empty bodies ("override these in your application"); the model
  records each call of one, with its arguments, in \<open>calls\<close>.
\<close>

datatype io_event = Write "byte list" | Close | Sleep nat

datatype call =
    BeginUpdate
  | CommitUpdate "Rect list"
  | UpdateRectangle int int int int "byte list"
  | CopyRectangle int int int int int int
  | UpdateDesktopSize int int

datatype task = NoTask | Running | Cancelled

text \<open>
  The attributes of an RFBClient that the modelled methods read or assign. \<open>writer\<close> and
  \<open>reader\<close> say whether the attribute holds a stream (is not \<open>None\<close>). \<open>rectangles\<close>,
  \<open>rectanglePos\<close> and \<open>challenge\<close> are created by the handlers that run before
  their first read (\<open>_handleFramebufferUpdate\<close> and \<open>_handleVNCAuth\<close>). \<open>io_log\<close> and
  \<open>calls\<close> are not attributes: they record what the client sends and which callbacks
  it calls.
\<close>

record rfb_client =
  packet :: "byte list"
  handler :: top_handler
  expected_handler :: "expected option"
  expected_len :: int
  version :: Ver
  version_server :: Ver
  negotiated_encodings :: "int set"
  pixel_format :: PixelFormat
  writer :: bool
  reader :: bool
  receive_task :: task
  challenge :: "byte list"
  rectangles :: int
  rectanglePos :: "Rect list"
  io_log :: "io_event list"
  calls :: "call list"

definition RFBClient_init :: rfb_client where
  "RFBClient_init =
     \<lparr>packet = [], handler = HandleInitial, expected_handler = None, expected_len = 12,
      version = (0, 0), version_server = (0, 0), negotiated_encodings = {Encoding_RAW},
      pixel_format = PixelFormat_default, writer = False, reader = False,
      receive_task = NoTask, challenge = [], rectangles = 0, rectanglePos = [],
      io_log = [], calls = []\<rparr>"

text \<open>\<open>connect\<close> stores the two streams and starts the receive loop.\<close>

definition connect :: "'a rfb_client_scheme \<Rightarrow> 'a rfb_client_scheme" where
  "connect st = st\<lparr>reader := True, writer := True, receive_task := Running\<rparr>"

definition disconnect :: "'a rfb_client_scheme \<Rightarrow> 'a rfb_client_scheme" where
  "disconnect st =
     (let st1 = (if receive_task st \<noteq> NoTask then st\<lparr>receive_task := Cancelled\<rparr> else st);
          st2 = st1\<lparr>reader := False\<rparr>
      in if writer st2 then st2\<lparr>io_log := io_log st2 @ [Close], writer := False\<rparr> else st2)"

text \<open>\<open>_write\<close>: nothing is sent when there is no writer.\<close>

definition rfb_write :: "'a rfb_client_scheme \<Rightarrow> byte list \<Rightarrow> 'a rfb_client_scheme" where
  "rfb_write st data = (if \<not> writer st then st else st\<lparr>io_log := io_log st @ [Write data]\<rparr>)"

text \<open>
  \<open>expect\<close> stores the handler, its arguments and the size of the block it waits for;
  then, unless \<open>_already_expecting\<close> is set, it enters \<open>_handleExpected\<close>. The flag is
  set exactly while the loop of \<open>_handleExpected\<close> runs a handler, so it is not a field
  of the model: \<open>expect\<close> below is the \<open>expect\<close> of a handler that the loop has called
  (the assignments alone), and \<open>_handleInitial\<close>, which \<open>dataReceived\<close> calls outside
  the loop, follows its \<open>expect\<close> by \<open>handleExpected\<close>.
\<close>

definition expect :: "'a rfb_client_scheme \<Rightarrow> expected \<Rightarrow> int \<Rightarrow> 'a rfb_client_scheme" where
  "expect st h sz = st\<lparr>expected_handler := Some h, expected_len := sz\<rparr>"

text \<open>
  The slices \<open>packet[:n]\<close> and \<open>del packet[:n]\<close>; a negative \<open>n\<close> counts from the end.
\<close>

definition slice_to :: "byte list \<Rightarrow> int \<Rightarrow> byte list" where
  "slice_to bs n = (if n < 0 then take (nat (int (length bs) + n)) bs else take (nat n) bs)"

definition del_to :: "byte list \<Rightarrow> int \<Rightarrow> byte list" where
  "del_to bs n = (if n < 0 then drop (nat (int (length bs) + n)) bs else drop (nat n) bs)"

text \<open>
  \<open>_handleExpected\<close>: as long as the packet holds a block of the expected size, cut it
  off and call the stored handler on it. \<open>run h block st\<close> stands for that call,
  \<open>self._expected_handler(block, *args)\<close>: the handlers of this theory are such calls, one
  for each constructor of \<open>expected\<close>. \<open>__init__\<close> does not create \<open>_expected_handler\<close>,
  so calling it before the first \<open>expect\<close> raises \<open>AttributeError\<close>. A handler may expect
  a block of size 0 again and again; the loop then never ends, which is the value \<open>None\<close>.
\<close>

partial_function (option) handleExpected ::
  "(expected \<Rightarrow> byte list \<Rightarrow> 'a rfb_client_scheme \<Rightarrow> error + 'a rfb_client_scheme)
    \<Rightarrow> 'a rfb_client_scheme \<Rightarrow> (error + 'a rfb_client_scheme) option" where
  "handleExpected run st =
     (if int (length (packet st)) \<ge> expected_len st then
        (case expected_handler st of
           None \<Rightarrow> Some (Inl AttributeError)
         | Some h \<Rightarrow>
             (case run h (slice_to (packet st) (expected_len st))
                     (st\<lparr>packet := del_to (packet st) (expected_len st)\<rparr>) of
                Inl e \<Rightarrow> Some (Inl e)
              | Inr st' \<Rightarrow> handleExpected run st'))
      else Some (Inr st))"

subsection \<open>The protocol version (\<open>_handleInitial\<close>)\<close>

text \<open>
  \<open>SUPPORTED_SERVER_VERSIONS\<close> is a set in the source; it is only filtered and passed
  to \<open>max\<close>, for which the order of its elements does not matter.
\<close>

definition SUPPORTED_SERVER_VERSIONS :: "Ver list" where
  "SUPPORTED_SERVER_VERSIONS = [(3, 3), (3, 7), (3, 8), (3, 889), (4, 0), (4, 1), (5, 0)]"

definition MAX_CLIENT_VERSION :: Ver where
  "MAX_CLIENT_VERSION = (3, 8)"

definition HEADER :: "byte list" where
  "HEADER = ascii ''RFB 000.000'' @ [0x0A]"

text \<open>\<open>bytes.maketrans(b"0123456789", b"0" * 10)\<close>: every digit becomes \<open>0\<close>.\<close>

definition is_digit :: "byte \<Rightarrow> bool" where
  "is_digit b = (0x30 \<le> b \<and> b \<le> 0x39)"

definition HEADER_TRANSLATE :: "byte \<Rightarrow> byte" where
  "HEADER_TRANSLATE b = (if is_digit b then 0x30 else b)"

text \<open>Python compares tuples lexicographically.\<close>

definition ver_le :: "Ver \<Rightarrow> Ver \<Rightarrow> bool" where
  "ver_le a b = (fst a < fst b \<or> (fst a = fst b \<and> snd a \<le> snd b))"

definition ver_lt :: "Ver \<Rightarrow> Ver \<Rightarrow> bool" where
  "ver_lt a b = (fst a < fst b \<or> (fst a = fst b \<and> snd a < snd b))"

text \<open>
  \<open>int\<close> of a byte string of decimal digits. Python's \<open>int\<close> also takes a sign, blanks
  around the number and underscores between digits; \<open>_handleInitial\<close> calls it on slices
  that it has checked to be three digits.
\<close>

definition py_int :: "byte list \<Rightarrow> error + int" where
  "py_int bs =
     (if bs \<noteq> [] \<and> list_all is_digit bs
      then Inr (foldl (\<lambda>acc b. 10 * acc + (uint b - 48)) 0 bs)
      else Inl ValueError)"

text \<open>\<open>max\<close> of an iterable: \<open>ValueError\<close> when it is empty.\<close>

definition py_max :: "Ver list \<Rightarrow> error + Ver" where
  "py_max vs =
     (case vs of
        [] \<Rightarrow> Inl ValueError
      | v # rest \<Rightarrow> Inr (foldl (\<lambda>m u. if ver_lt m u then u else m) v rest))"

text \<open>The decimal digits of a number, as \<open>%d\<close> and an f-string print them.\<close>

fun decimal :: "nat \<Rightarrow> string" where
  "decimal n =
     (if n < 10 then [''0123456789'' ! n]
      else decimal (n div 10) @ [''0123456789'' ! (n mod 10)])"

text \<open>\<open>%03d\<close>: decimal, zero-padded to three characters, the sign counted in the width.\<close>

definition fmt_03d :: "int \<Rightarrow> byte list" where
  "fmt_03d i =
     (if i < 0
      then ascii (''-'' @ replicate (2 - length (decimal (nat (- i)))) (CHR ''0'') @ decimal (nat (- i)))
      else ascii (replicate (3 - length (decimal (nat i))) (CHR ''0'') @ decimal (nat i)))"

text \<open>
  The form \<open>RFB ddd.ddd\n\<close> of a banner, and the number three digits stand for; the
  statements about \<open>_handleInitial\<close> are written with them.
\<close>

definition banner :: "byte list \<Rightarrow> byte list \<Rightarrow> byte list" where
  "banner major minor = ascii ''RFB '' @ major @ ascii ''.'' @ minor @ [0x0A]"

definition dec3 :: "byte \<Rightarrow> byte \<Rightarrow> byte \<Rightarrow> int" where
  "dec3 a b c = 100 * (uint a - 48) + 10 * (uint b - 48) + (uint c - 48)"

text \<open>
  \<open>_handleInitial\<close>. It is the one handler that \<open>dataReceived\<close> calls outside the loop
  of \<open>_handleExpected\<close>, so its \<open>expect\<close> goes on into that loop: the bytes that follow
  the banner in the packet are handled before it returns.
\<close>

definition handleInitial ::
  "(expected \<Rightarrow> byte list \<Rightarrow> 'a rfb_client_scheme \<Rightarrow> error + 'a rfb_client_scheme)
    \<Rightarrow> 'a rfb_client_scheme \<Rightarrow> (error + 'a rfb_client_scheme) option" where
  "handleInitial run st =
     (let head = take 12 (packet st);
          norm = map HEADER_TRANSLATE head
      in if norm = HEADER then
           (case
              ebind (py_int (take 3 (drop 4 head))) (\<lambda>major.
              ebind (py_int (take 3 (drop 8 head))) (\<lambda>minor.
              ebind (py_max (filter (\<lambda>v. ver_le v (major, minor)) SUPPORTED_SERVER_VERSIONS)) (\<lambda>v.
                let ver = (if ver_lt MAX_CLIENT_VERSION v then MAX_CLIENT_VERSION else v);
                    st1 = st\<lparr>packet := drop 12 (packet st)\<rparr>;
                    st2 = rfb_write st1 (ascii ''RFB '' @ fmt_03d (fst ver) @ ascii ''.''
                                      @ fmt_03d (snd ver) @ [0x0A]);
                    st3 = st2\<lparr>handler := HandleExpected, version := ver,
                               version_server := (major, minor)\<rparr>
                in Inr (if ver_lt ver (3, 7) then expect st3 H_Auth 4
                        else expect st3 H_NumberSecurityTypes 1))))
            of Inl e \<Rightarrow> Some (Inl e)
             | Inr st4 \<Rightarrow> handleExpected run st4)
         else if \<not> prefix norm HEADER then Some (Inr (disconnect st))
         else Some (Inr st))"

subsection \<open>VNC authentication (\<open>_vnc_des\<close>, \<open>sendPassword\<close>)\<close>





text \<open>\<open>sum((128 >> i) if (k & (1 << i)) else 0 for i in range(8))\<close>\<close>

definition reversed_sum :: "byte \<Rightarrow> nat" where
  "reversed_sum k =
     sum_list (map (\<lambda>i. if unat k AND push_bit i 1 \<noteq> 0 then drop_bit i 128 else 0) [0..<8])"



subsection \<open>Framebuffer updates (\<open>_handleFramebufferUpdate\<close>, \<open>_doConnection\<close>, \<open>_handleRectangle\<close>)\<close>

text \<open>The callbacks, as RFBClient has them: a call changes nothing and is recorded.\<close>

definition beginUpdate :: "'a rfb_client_scheme \<Rightarrow> 'a rfb_client_scheme" where
  "beginUpdate st = st\<lparr>calls := calls st @ [BeginUpdate]\<rparr>"

definition commitUpdate :: "'a rfb_client_scheme \<Rightarrow> Rect list \<Rightarrow> 'a rfb_client_scheme" where
  "commitUpdate st rects = st\<lparr>calls := calls st @ [CommitUpdate rects]\<rparr>"

definition rfb_updateRectangle ::
  "'a rfb_client_scheme \<Rightarrow> int \<Rightarrow> int \<Rightarrow> int \<Rightarrow> int \<Rightarrow> byte list \<Rightarrow> 'a rfb_client_scheme" where
  "rfb_updateRectangle st x y w h data = st\<lparr>calls := calls st @ [UpdateRectangle x y w h data]\<rparr>"

definition rfb_copyRectangle ::
  "'a rfb_client_scheme \<Rightarrow> int \<Rightarrow> int \<Rightarrow> int \<Rightarrow> int \<Rightarrow> int \<Rightarrow> int \<Rightarrow> 'a rfb_client_scheme" where
  "rfb_copyRectangle st srcx srcy x y w h = st\<lparr>calls := calls st @ [CopyRectangle srcx srcy x y w h]\<rparr>"

definition rfb_updateDesktopSize :: "'a rfb_client_scheme \<Rightarrow> int \<Rightarrow> int \<Rightarrow> 'a rfb_client_scheme" where
  "rfb_updateDesktopSize st w h = st\<lparr>calls := calls st @ [UpdateDesktopSize w h]\<rparr>"

text \<open>\<open>bytes * n\<close>: the byte string repeated, empty for a count below one.\<close>

definition bytes_mul :: "byte list \<Rightarrow> int \<Rightarrow> byte list" where
  "bytes_mul bs n = concat (replicate (nat n) bs)"

text \<open>\<open>fillRectangle\<close> has a body in RFBClient: it falls back on \<open>updateRectangle\<close>.\<close>

definition rfb_fillRectangle ::
  "'a rfb_client_scheme \<Rightarrow> int \<Rightarrow> int \<Rightarrow> int \<Rightarrow> int \<Rightarrow> byte list \<Rightarrow> 'a rfb_client_scheme" where
  "rfb_fillRectangle st x y w h color = rfb_updateRectangle st x y w h (bytes_mul (bytes_mul color w) h)"

definition doConnection :: "'a rfb_client_scheme \<Rightarrow> 'a rfb_client_scheme" where
  "doConnection st =
     (if rectangles st \<noteq> 0 then expect st H_Rectangle 12
      else expect (if rectanglePos st \<noteq> [] then commitUpdate st (rectanglePos st) else st)
             H_Connection 1)"

definition handleFramebufferUpdate ::
  "'a rfb_client_scheme \<Rightarrow> byte list \<Rightarrow> error + 'a rfb_client_scheme" where
  "handleFramebufferUpdate st block =
     ebind (unpack ''!xH'' block) (\<lambda>vs.
       case vs of
         [VInt n] \<Rightarrow> Inr (doConnection (beginUpdate (st\<lparr>rectangles := n, rectanglePos := []\<rparr>)))
       | _ \<Rightarrow> Inl ValueError)"

definition doNextHextileSubrect ::
  "'a rfb_client_scheme \<Rightarrow> byte list option \<Rightarrow> byte list option \<Rightarrow> int \<Rightarrow> int \<Rightarrow> int \<Rightarrow> int
   \<Rightarrow> int option \<Rightarrow> int option \<Rightarrow> error + 'a rfb_client_scheme" where
  "doNextHextileSubrect st bg color x y w h tx ty =
     ebind (case tx of
              Some t \<Rightarrow>
                (case ty of
                   None \<Rightarrow> Inl AssertionError
                 | Some u \<Rightarrow> Inr (if t + 16 \<ge> x + w then (x, u + 16) else (t + 16, u)))
            | None \<Rightarrow> Inr (x, y))
       (\<lambda>(tx', ty').
          if ty' \<ge> y + h then Inr (doConnection st)
          else Inr (expect st (H_DecodeHextile bg color x y w h tx' ty') 1))"

definition handleDecodeDesktopSize :: "'a rfb_client_scheme \<Rightarrow> int \<Rightarrow> int \<Rightarrow> 'a rfb_client_scheme" where
  "handleDecodeDesktopSize st w h = doConnection (rfb_updateDesktopSize st w h)"

definition handleRectangle :: "'a rfb_client_scheme \<Rightarrow> byte list \<Rightarrow> error + 'a rfb_client_scheme" where
  "handleRectangle st0 block =
     ebind (unpack ''!HHHHi'' block) (\<lambda>vs.
       case vs of
         [VInt x, VInt y, VInt w, VInt h, VInt encoding] \<Rightarrow>
           (let st1 = (if encoding = Encoding_PSEUDO_LAST_RECT then st0\<lparr>rectangles := 0\<rparr> else st0)
            in if rectangles st1 \<noteq> 0 then
                 (let st = st1\<lparr>rectangles := rectangles st1 - 1,
                               rectanglePos := rectanglePos st1 @ [(x, y, w, h)]\<rparr>;
                      n = int (bypp (pixel_format st))
                  in if encoding = Encoding_COPY_RECTANGLE then
                       Inr (expect st (H_DecodeCopyrect x y w h) 4)
                     else if encoding = Encoding_RAW then
                       Inr (expect st (H_DecodeRAW x y w h) (w * h * n))
                     else if encoding = Encoding_HEXTILE then
                       doNextHextileSubrect st None None x y w h None None
                     else if encoding = Encoding_CORRE then
                       Inr (expect st (H_DecodeCORRE x y w h) (4 + n))
                     else if encoding = Encoding_RRE then
                       Inr (expect st (H_DecodeRRE x y w h) (4 + n))
                     else if encoding = Encoding_ZRLE then
                       Inr (expect st (H_DecodeZRLE x y w h) 4)
                     else if encoding = Encoding_PSEUDO_CURSOR then
                       Inr (expect st (H_DecodePsuedoCursor x y w h) (w * h * n + ((w + 7) div 8) * h))
                     else if encoding = Encoding_PSEUDO_DESKTOP_SIZE then
                       Inr (handleDecodeDesktopSize st w h)
                     else if encoding = Encoding_PSEUDO_QEMU_EXTENDED_KEY_EVENT then
                       Inr (doConnection
                             (st\<lparr>negotiated_encodings :=
                                   insert Encoding_PSEUDO_QEMU_EXTENDED_KEY_EVENT (negotiated_encodings st),
                                 rectanglePos := butlast (rectanglePos st)\<rparr>))
                     else if encoding = Encoding_PSEUDO_QEMU_AUDIO then
                       Inr (doConnection
                             (st\<lparr>negotiated_encodings :=
                                   insert Encoding_PSEUDO_QEMU_AUDIO (negotiated_encodings st),
                                 rectanglePos := butlast (rectanglePos st)\<rparr>))
                     else Inr (disconnect st))
               else Inr (doConnection st1))
       | _ \<Rightarrow> Inl ValueError)"

subsection \<open>Raw, CopyRect, RRE and CoRRE rectangles\<close>

definition handleDecodeRAW ::
  "'a rfb_client_scheme \<Rightarrow> byte list \<Rightarrow> int \<Rightarrow> int \<Rightarrow> int \<Rightarrow> int \<Rightarrow> error + 'a rfb_client_scheme" where
  "handleDecodeRAW st block x y w h = Inr (doConnection (rfb_updateRectangle st x y w h block))"

definition handleDecodeCopyrect ::
  "'a rfb_client_scheme \<Rightarrow> byte list \<Rightarrow> int \<Rightarrow> int \<Rightarrow> int \<Rightarrow> int \<Rightarrow> error + 'a rfb_client_scheme" where
  "handleDecodeCopyrect st block x y w h =
     ebind (unpack ''!HH'' block) (\<lambda>vs.
       case vs of
         [VInt srcx, VInt srcy] \<Rightarrow> Inr (doConnection (rfb_copyRectangle st srcx srcy x y w h))
       | _ \<Rightarrow> Inl ValueError)"

definition handleDecodeRRE ::
  "'a rfb_client_scheme \<Rightarrow> byte list \<Rightarrow> int \<Rightarrow> int \<Rightarrow> int \<Rightarrow> int \<Rightarrow> error + 'a rfb_client_scheme" where
  "handleDecodeRRE st block x y w h =
     ebind (unpack ''!I'' (take 4 block)) (\<lambda>vs.
       case vs of
         [VInt subrects] \<Rightarrow>
           (let st1 = rfb_fillRectangle st x y w h (drop 4 block)
            in if subrects \<noteq> 0
               then Inr (expect st1 (H_RRESubRectangles x y) ((8 + int (bypp (pixel_format st1))) * subrects))
               else Inr (doConnection st1))
       | _ \<Rightarrow> Inl ValueError)"

text \<open>
  The loop of \<open>_handleRRESubRectangles\<close>: \<open>while pos < end\<close>, one subrectangle of
  \<open>sz = bypp + 8\<close> bytes each time round. \<open>n\<close> is \<open>self.bypp\<close>.
\<close>

function RRE_loop ::
  "'a rfb_client_scheme \<Rightarrow> byte list \<Rightarrow> int \<Rightarrow> int \<Rightarrow> string \<Rightarrow> nat \<Rightarrow> nat
   \<Rightarrow> error + 'a rfb_client_scheme" where
  "RRE_loop st block topx topy format n pos =
     (if pos < length block then
        (case unpack format (take (n + 8) (drop pos block)) of
           Inl e \<Rightarrow> Inl e
         | Inr vs \<Rightarrow>
             (case vs of
                [VBytes color, VInt x, VInt y, VInt w, VInt h] \<Rightarrow>
                  RRE_loop (rfb_fillRectangle st (topx + x) (topy + y) w h color)
                    block topx topy format n (pos + (n + 8))
              | _ \<Rightarrow> Inl ValueError))
      else Inr (doConnection st))"
  by pat_completeness auto
termination
  by (relation "measure (\<lambda>(st, block, topx, topy, format, n, pos). length block - pos)") auto

definition handleRRESubRectangles ::
  "'a rfb_client_scheme \<Rightarrow> byte list \<Rightarrow> int \<Rightarrow> int \<Rightarrow> error + 'a rfb_client_scheme" where
  "handleRRESubRectangles st block topx topy =
     RRE_loop st block topx topy (''!'' @ decimal (bypp (pixel_format st)) @ ''sHHHH'')
       (bypp (pixel_format st)) 0"

definition handleDecodeCORRE ::
  "'a rfb_client_scheme \<Rightarrow> byte list \<Rightarrow> int \<Rightarrow> int \<Rightarrow> int \<Rightarrow> int \<Rightarrow> error + 'a rfb_client_scheme" where
  "handleDecodeCORRE st block x y w h =
     ebind (unpack ''!I'' (take 4 block)) (\<lambda>vs.
       case vs of
         [VInt subrects] \<Rightarrow>
           (let st1 = rfb_fillRectangle st x y w h (drop 4 block)
            in if subrects \<noteq> 0
               then Inr (expect st1 (H_DecodeCORRERectangles x y) ((4 + int (bypp (pixel_format st1))) * subrects))
               else Inr (doConnection st1))
       | _ \<Rightarrow> Inl ValueError)"

text \<open>
  The loop of \<open>_handleDecodeCORRERectangles\<close>, as the source has it: \<open>while pos < sz\<close>
  with \<open>sz = self.bypp + 4\<close>, and the format the string literal
  \<open>"!{self.bypp}sBBBB"\<close>, which has no \<open>f\<close> prefix and so reaches \<open>unpack\<close> with its
  braces.
\<close>

function CORRE_loop ::
  "'a rfb_client_scheme \<Rightarrow> byte list \<Rightarrow> int \<Rightarrow> int \<Rightarrow> string \<Rightarrow> nat \<Rightarrow> nat
   \<Rightarrow> error + 'a rfb_client_scheme" where
  "CORRE_loop st block topx topy format sz pos =
     (if pos < sz then
        (case unpack format (take sz (drop pos block)) of
           Inl e \<Rightarrow> Inl e
         | Inr vs \<Rightarrow>
             (case vs of
                [VBytes color, VInt x, VInt y, VInt w, VInt h] \<Rightarrow>
                  CORRE_loop (rfb_fillRectangle st (topx + x) (topy + y) w h color)
                    block topx topy format sz (pos + sz)
              | _ \<Rightarrow> Inl ValueError))
      else Inr (doConnection st))"
  by pat_completeness auto
termination
  by (relation "measure (\<lambda>(st, block, topx, topy, format, sz, pos). sz - pos)") auto

definition handleDecodeCORRERectangles ::
  "'a rfb_client_scheme \<Rightarrow> byte list \<Rightarrow> int \<Rightarrow> int \<Rightarrow> error + 'a rfb_client_scheme" where
  "handleDecodeCORRERectangles st block topx topy =
     CORRE_loop st block topx topy ''!{self.bypp}sBBBB'' (bypp (pixel_format st) + 4) 0"

subsection \<open>Run lengths of ZRLE (\<open>_handleDecodeZRLEdata\<close>)\<close>

text \<open>
  The decompressed data is read through an iterator; the model passes the bytes still to
  come and returns the rest. \<open>next\<close> on an exhausted iterator raises \<open>StopIteration\<close>
  (which leaves the coroutine around it as a \<open>RuntimeError\<close>; the model keeps the name).
  \<open>cpixel\<close> reads three bytes and appends \<open>0xFF\<close>.
\<close>

definition cpixel :: "byte list \<Rightarrow> error + byte list \<times> byte list" where
  "cpixel it =
     (case it of
        a # b # c # rest \<Rightarrow> Inr ([a, b, c, 0xFF], rest)
      | _ \<Rightarrow> Inl StopIteration)"

text \<open>
  The \<open>while\<close> loop of \<open>do_rle\<close>: \<open>nxt\<close> is \<open>run_length_next\<close>, \<open>len\<close> is
  \<open>run_length\<close>.
\<close>

fun rle_while :: "byte \<Rightarrow> nat \<Rightarrow> byte list \<Rightarrow> error + nat \<times> byte list" where
  "rle_while nxt len [] = (if nxt = 255 then Inl StopIteration else Inr (len, []))"
| "rle_while nxt len (b # rest) =
     (if nxt = 255 then rle_while b (len + unat b) rest else Inr (len, b # rest))"

text \<open>
  \<open>do_rle(pixel)\<close>: it returns the number of pixels of the run; the model also returns
  the rest of the iterator and the extended \<open>pixel_data\<close>.
\<close>

definition do_rle ::
  "byte list \<Rightarrow> byte list \<Rightarrow> byte list \<Rightarrow> error + nat \<times> byte list \<times> byte list" where
  "do_rle pixel it pixel_data =
     (case it of
        [] \<Rightarrow> Inl StopIteration
      | b # rest \<Rightarrow>
          (case rle_while b (unat b) rest of
             Inl e \<Rightarrow> Inl e
           | Inr (run_length, it') \<Rightarrow>
               Inr (run_length + 1, it', pixel_data @ bytes_mul pixel (int (run_length + 1)))))"

text \<open>Plain RLE: \<open>while num_pixels < pixels_in_tile\<close>, then the check of the count.\<close>

function plain_rle ::
  "int \<Rightarrow> int \<Rightarrow> byte list \<Rightarrow> byte list \<Rightarrow> error + byte list \<times> byte list" where
  "plain_rle num_pixels pixels_in_tile it pixel_data =
     (if num_pixels < pixels_in_tile then
        (case cpixel it of
           Inl e \<Rightarrow> Inl e
         | Inr (color, it1) \<Rightarrow>
             (case do_rle color it1 pixel_data of
                Inl e \<Rightarrow> Inl e
              | Inr (n, it2, pixel_data') \<Rightarrow>
                  plain_rle (num_pixels + int n) pixels_in_tile it2 pixel_data'))
      else if num_pixels \<noteq> pixels_in_tile then Inl ValueError
      else Inr (pixel_data, it))"
  by pat_completeness auto
termination
  by (relation "measure (\<lambda>(num_pixels, pixels_in_tile, it, pixel_data). nat (pixels_in_tile - num_pixels))")
     (auto simp: do_rle_def split: list.splits sum.splits prod.splits)

text \<open>\<open>[cpixel(it) for p in range(palette_size)]\<close>\<close>

fun read_palette :: "nat \<Rightarrow> byte list \<Rightarrow> error + byte list list \<times> byte list" where
  "read_palette 0 it = Inr ([], it)"
| "read_palette (Suc n) it =
     (case cpixel it of
        Inl e \<Rightarrow> Inl e
      | Inr (c, it1) \<Rightarrow>
          (case read_palette n it1 of
             Inl e \<Rightarrow> Inl e
           | Inr (cs, it2) \<Rightarrow> Inr (c # cs, it2)))"

text \<open>
  Palette RLE: an index byte with the high bit set starts a run of the palette entry its
  low seven bits select; an index outside the palette raises \<open>IndexError\<close>.
\<close>

function palette_rle ::
  "byte list list \<Rightarrow> int \<Rightarrow> int \<Rightarrow> byte list \<Rightarrow> byte list \<Rightarrow> error + byte list \<times> byte list" where
  "palette_rle palette num_pixels pixels_in_tile it pixel_data =
     (if num_pixels < pixels_in_tile then
        (case it of
           [] \<Rightarrow> Inl StopIteration
         | palette_index # it1 \<Rightarrow>
             if palette_index AND 0x80 \<noteq> 0 then
               (if unat (palette_index AND 0x7F) < length palette then
                  (case do_rle (palette ! unat (palette_index AND 0x7F)) it1 pixel_data of
                     Inl e \<Rightarrow> Inl e
                   | Inr (n, it2, pixel_data') \<Rightarrow>
                       palette_rle palette (num_pixels + int n) pixels_in_tile it2 pixel_data')
                else Inl IndexError)
             else
               (if unat palette_index < length palette then
                  palette_rle palette (num_pixels + 1) pixels_in_tile it1
                    (pixel_data @ palette ! unat palette_index)
                else Inl IndexError))
      else if num_pixels \<noteq> pixels_in_tile then Inl ValueError
      else Inr (pixel_data, it))"
  by pat_completeness auto
termination
  by (relation "measure (\<lambda>(palette, num_pixels, pixels_in_tile, it, pixel_data).
        nat (pixels_in_tile - num_pixels))")
     (auto simp: do_rle_def split: list.splits sum.splits prod.splits)

text \<open>
  The branch \<open>if subencoding & 0x80\<close> of a tile: the pixel data that goes to
  \<open>updateRectangle\<close>, and the rest of the iterator.
\<close>

definition rle_tile :: "byte \<Rightarrow> int \<Rightarrow> byte list \<Rightarrow> error + byte list \<times> byte list" where
  "rle_tile subencoding pixels_in_tile it =
     (if subencoding AND 127 = 0 then plain_rle 0 pixels_in_tile it []
      else (case read_palette (unat (subencoding AND 127)) it of
              Inl e \<Rightarrow> Inl e
            | Inr (palette, it1) \<Rightarrow> palette_rle palette 0 pixels_in_tile it1 []))"

subsection \<open>Pointer events (\<open>pointerEvent\<close>)\<close>

definition pointerEvent ::
  "'a rfb_client_scheme \<Rightarrow> int \<Rightarrow> int \<Rightarrow> int \<Rightarrow> error + 'a rfb_client_scheme" where
  "pointerEvent st x y buttonmask =
     ebind (pack ''!BBHH'' [VInt 5, VInt buttonmask, VInt x, VInt y]) (\<lambda>data. Inr (rfb_write st data))"

section \<open>Images (the Pillow calls of client.py)\<close>

text \<open>
  client.py keeps the screen and the cursor in Pillow images. What it uses of Pillow is
  modelled here from Pillow's behaviour: an image is its size and its rows of pixels;
  \<open>Image.new\<close> fills with one colour and refuses a negative size; \<open>paste\<close> copies the
  part of the source that falls inside the target, and with a mask only where the mask is
  set; \<open>Image.frombytes\<close> decodes raw bytes row by row, returns an empty image for a
  zero width or height without looking at the data, ignores bytes beyond the last pixel
  and raises \<open>ValueError\<close> when the bytes do not fill the image.
\<close>

type_synonym rgb = "byte \<times> byte \<times> byte"

record 'p image =
  im_w :: nat
  im_h :: nat
  im_rows :: "'p list list"

definition black :: rgb where
  "black = (0, 0, 0)"

definition getpixel :: "'p image \<Rightarrow> nat \<times> nat \<Rightarrow> 'p" where
  "getpixel im xy = im_rows im ! snd xy ! fst xy"

definition Image_new :: "int \<times> int \<Rightarrow> 'p \<Rightarrow> error + 'p image" where
  "Image_new sz color =
     (if fst sz < 0 \<or> snd sz < 0 then Inl ValueError
      else Inr \<lparr>im_w = nat (fst sz), im_h = nat (snd sz),
               im_rows = replicate (nat (snd sz)) (replicate (nat (fst sz)) color)\<rparr>)"

definition covers :: "'p image \<Rightarrow> int \<times> int \<Rightarrow> nat \<Rightarrow> nat \<Rightarrow> bool" where
  "covers src box x y =
     (fst box \<le> int x \<and> int x < fst box + int (im_w src)
      \<and> snd box \<le> int y \<and> int y < snd box + int (im_h src))"

definition paste :: "'p image \<Rightarrow> 'p image \<Rightarrow> int \<times> int \<Rightarrow> 'p image" where
  "paste dst src box =
     dst\<lparr>im_rows :=
           map (\<lambda>y. map (\<lambda>x. if covers src box x y
                              then getpixel src (nat (int x - fst box), nat (int y - snd box))
                              else getpixel dst (x, y))
                      [0..<im_w dst])
               [0..<im_h dst]\<rparr>"

definition paste_mask :: "'p image \<Rightarrow> 'p image \<Rightarrow> int \<times> int \<Rightarrow> bool image \<Rightarrow> error + 'p image" where
  "paste_mask dst src box msk =
     (if im_w msk \<noteq> im_w src \<or> im_h msk \<noteq> im_h src then Inl ValueError
      else Inr (dst\<lparr>im_rows :=
           map (\<lambda>y. map (\<lambda>x. if covers src box x y
                                  \<and> getpixel msk (nat (int x - fst box), nat (int y - snd box))
                              then getpixel src (nat (int x - fst box), nat (int y - snd box))
                              else getpixel dst (x, y))
                      [0..<im_w dst])
               [0..<im_h dst]\<rparr>))"

text \<open>The raw modes of the table \<open>PF2IM\<close>: \<open>RGB\<close>, \<open>RGBX\<close>, \<open>BGR;16\<close>, \<open>BGR\<close>, \<open>BGRX\<close>.\<close>

datatype rawmode = RGB | RGBX | BGR_16 | BGR | BGRX

fun raw_size :: "rawmode \<Rightarrow> nat" where
  "raw_size RGB = 3"
| "raw_size RGBX = 4"
| "raw_size BGR_16 = 2"
| "raw_size BGR = 3"
| "raw_size BGRX = 4"

fun raw_pixel :: "rawmode \<Rightarrow> byte list \<Rightarrow> rgb" where
  "raw_pixel RGB bs = (bs ! 0, bs ! 1, bs ! 2)"
| "raw_pixel RGBX bs = (bs ! 0, bs ! 1, bs ! 2)"
| "raw_pixel BGR bs = (bs ! 2, bs ! 1, bs ! 0)"
| "raw_pixel BGRX bs = (bs ! 2, bs ! 1, bs ! 0)"
| "raw_pixel BGR_16 bs =
     (let pixel = unat (bs ! 0) + 256 * unat (bs ! 1)
      in (of_nat (((pixel div 2048) mod 32) * 255 div 31),
          of_nat (((pixel div 32) mod 64) * 255 div 63),
          of_nat ((pixel mod 32) * 255 div 31)))"

definition frombytes_RGB :: "int \<times> int \<Rightarrow> byte list \<Rightarrow> rawmode \<Rightarrow> error + rgb image" where
  "frombytes_RGB sz data m =
     (if fst sz < 0 \<or> snd sz < 0 then Inl ValueError
      else if fst sz = 0 \<or> snd sz = 0 then Image_new sz black
      else if length data < nat (fst sz) * nat (snd sz) * raw_size m then Inl ValueError
      else Inr \<lparr>im_w = nat (fst sz), im_h = nat (snd sz),
               im_rows =
                 map (\<lambda>y. map (\<lambda>x. raw_pixel m
                                      (take (raw_size m) (drop ((y * nat (fst sz) + x) * raw_size m) data)))
                            [0..<nat (fst sz)])
                     [0..<nat (snd sz)]\<rparr>)"

text \<open>Mode \<open>1\<close>: one bit a pixel, the most significant bit first, each row padded to a byte.\<close>

definition frombytes_1 :: "int \<times> int \<Rightarrow> byte list \<Rightarrow> error + bool image" where
  "frombytes_1 sz data =
     (if fst sz < 0 \<or> snd sz < 0 then Inl ValueError
      else if fst sz = 0 \<or> snd sz = 0 then Image_new sz False
      else if length data < ((nat (fst sz) + 7) div 8) * nat (snd sz) then Inl ValueError
      else Inr \<lparr>im_w = nat (fst sz), im_h = nat (snd sz),
               im_rows =
                 map (\<lambda>y. map (\<lambda>x. bit (data ! (y * ((nat (fst sz) + 7) div 8) + x div 8)) (7 - x mod 8))
                            [0..<nat (fst sz)])
                     [0..<nat (snd sz)]\<rparr>)"

section \<open>The high-level client VNCDoToolClient (client.py)\<close>

text \<open>
  VNCDoToolClient extends RFBClient. \<open>self.x\<close> and \<open>self.y\<close> are \<open>self_x\<close> and
  \<open>self_y\<close>; \<open>screen\<close>, \<open>cursor\<close> and \<open>cmask\<close> are \<open>None\<close> or an image; \<open>cfocus\<close>
  does not exist before \<open>updateCursor\<close> assigns it.
\<close>

record vnc_client = rfb_client +
  self_x :: int
  self_y :: int
  buttons :: int
  screen :: "rgb image option"
  image_mode :: rawmode
  cursor :: "rgb image option"
  cmask :: "bool image option"
  cfocus :: "(int \<times> int) option"
  nocursor :: bool

definition MAX_DESKTOP_SIZE :: int where
  "MAX_DESKTOP_SIZE = 0x10000"

text \<open>
  A new client: the attributes of \<open>RFBClient.__init__\<close>, the class attributes of
  VNCDoToolClient (\<open>image_mode\<close> is \<open>PF2IM[PixelFormat()]\<close>, that is \<open>RGBX\<close>) and
  \<open>nocursor\<close> as \<open>__init__\<close> sets it.
\<close>

definition VNCDoToolClient_init :: vnc_client where
  "VNCDoToolClient_init =
     \<lparr>packet = [], handler = HandleInitial, expected_handler = None, expected_len = 12,
      version = (0, 0), version_server = (0, 0), negotiated_encodings = {Encoding_RAW},
      pixel_format = PixelFormat_default, writer = False, reader = False,
      receive_task = NoTask, challenge = [], rectangles = 0, rectanglePos = [],
      io_log = [], calls = [],
      self_x = 0, self_y = 0, buttons = 0, screen = None, image_mode = RGBX,
      cursor = None, cmask = None, cfocus = None, nocursor = False\<rparr>"

definition mouseMove :: "'a vnc_client_scheme \<Rightarrow> int \<Rightarrow> int \<Rightarrow> error + 'a vnc_client_scheme" where
  "mouseMove st x y = pointerEvent (st\<lparr>self_x := x, self_y := y\<rparr>) x y (buttons st)"

text \<open>\<open>range(start, stop, step)\<close>, as a list; a zero step raises \<open>ValueError\<close>.\<close>

definition py_range :: "int \<Rightarrow> int \<Rightarrow> int \<Rightarrow> error + int list" where
  "py_range start stop step =
     (if step = 0 then Inl ValueError
      else if step > 0
      then Inr (map (\<lambda>i. start + int i * step) [0..<nat ((stop - start + step - 1) div step)])
      else Inr (map (\<lambda>i. start + int i * step) [0..<nat ((start - stop - step - 1) div (- step))]))"

definition sleep :: "nat \<Rightarrow> 'a rfb_client_scheme \<Rightarrow> 'a rfb_client_scheme" where
  "sleep ms st = st\<lparr>io_log := io_log st @ [Sleep ms]\<rparr>"

text \<open>The two loops of \<open>mouseDrag\<close>: a move and a pause of 0.2 s for each position.\<close>

fun drag_ysteps :: "'a vnc_client_scheme \<Rightarrow> int list \<Rightarrow> error + 'a vnc_client_scheme" where
  "drag_ysteps st [] = Inr st"
| "drag_ysteps st (ypos # rest) =
     (case mouseMove st (self_x st) ypos of
        Inl e \<Rightarrow> Inl e
      | Inr st1 \<Rightarrow> drag_ysteps (sleep 200 st1) rest)"

fun drag_xsteps :: "'a vnc_client_scheme \<Rightarrow> int list \<Rightarrow> error + 'a vnc_client_scheme" where
  "drag_xsteps st [] = Inr st"
| "drag_xsteps st (xpos # rest) =
     (case mouseMove st xpos (self_y st) of
        Inl e \<Rightarrow> Inl e
      | Inr st1 \<Rightarrow> drag_xsteps (sleep 200 st1) rest)"

definition mouseDrag :: "'a vnc_client_scheme \<Rightarrow> int \<Rightarrow> int \<Rightarrow> int \<Rightarrow> error + 'a vnc_client_scheme" where
  "mouseDrag st x y step =
     ebind (if x < self_x st then py_range (self_x st - step) x (- step)
            else py_range (self_x st + step) x step) (\<lambda>xsteps.
     ebind (if y < self_y st then py_range (self_y st - step) y (- step)
            else py_range (self_y st + step) y step) (\<lambda>ysteps.
     ebind (drag_ysteps st ysteps) (\<lambda>st1.
     ebind (drag_xsteps st1 xsteps) (\<lambda>st2.
       mouseMove st2 x y))))"

definition drawCursor :: "'a vnc_client_scheme \<Rightarrow> error + 'a vnc_client_scheme" where
  "drawCursor st =
     (case cursor st of
        None \<Rightarrow> Inr st
      | Some cur \<Rightarrow>
          (case screen st of
             None \<Rightarrow> Inr st
           | Some scr \<Rightarrow>
               (case cfocus st of
                  None \<Rightarrow> Inl AttributeError
                | Some focus \<Rightarrow>
                    (let box = (self_x st - fst focus, self_y st - snd focus)
                     in case cmask st of
                          None \<Rightarrow> Inr (st\<lparr>screen := Some (paste scr cur box)\<rparr>)
                        | Some m \<Rightarrow>
                            ebind (paste_mask scr cur box m) (\<lambda>scr'. Inr (st\<lparr>screen := Some scr'\<rparr>))))))"

definition updateRectangle ::
  "'a vnc_client_scheme \<Rightarrow> int \<Rightarrow> int \<Rightarrow> int \<Rightarrow> int \<Rightarrow> byte list \<Rightarrow> error + 'a vnc_client_scheme" where
  "updateRectangle st x y width height data =
     (if data = [] then Inr st
      else
        ebind (case screen st of
                 None \<Rightarrow> Inr st
               | Some scr \<Rightarrow>
                   if width \<noteq> int (im_w scr) \<or> height \<noteq> int (im_h scr)
                   then ebind (mouseMove st width height) (\<lambda>s. mouseMove s 0 0)
                   else Inr st) (\<lambda>st1.
        ebind (frombytes_RGB (width, height) data (image_mode st1)) (\<lambda>update.
        ebind (case screen st1 of
                 None \<Rightarrow> Inr (st1\<lparr>screen := Some update\<rparr>)
               | Some scr \<Rightarrow>
                   if int (im_w scr) < x + width \<or> int (im_h scr) < y + height
                   then ebind (Image_new (max (x + width) (int (im_w scr)),
                                          max (y + height) (int (im_h scr))) black)
                          (\<lambda>new_screen.
                             Inr (st1\<lparr>screen := Some (paste (paste new_screen scr (0, 0)) update (x, y))\<rparr>))
                   else Inr (st1\<lparr>screen := Some (paste scr update (x, y))\<rparr>))
          drawCursor)))"

definition updateCursor ::
  "'a vnc_client_scheme \<Rightarrow> int \<Rightarrow> int \<Rightarrow> int \<Rightarrow> int \<Rightarrow> byte list \<Rightarrow> byte list
   \<Rightarrow> error + 'a vnc_client_scheme" where
  "updateCursor st x y width height image_data mask_data =
     (if nocursor st then Inr st
      else
        (let st1 = (if width = 0 \<or> height = 0 then st\<lparr>cursor := None\<rparr> else st)
         in ebind (frombytes_RGB (width, height) image_data (image_mode st1)) (\<lambda>cur.
            ebind (frombytes_1 (width, height) mask_data) (\<lambda>m.
              drawCursor (st1\<lparr>cursor := Some cur, cmask := Some m, cfocus := Some (x, y)\<rparr>)))))"

definition updateDesktopSize ::
  "'a vnc_client_scheme \<Rightarrow> int \<Rightarrow> int \<Rightarrow> error + 'a vnc_client_scheme" where
  "updateDesktopSize st width height =
     (if \<not> (0 \<le> width \<and> width < MAX_DESKTOP_SIZE \<and> 0 \<le> height \<and> height < MAX_DESKTOP_SIZE)
      then Inl ValueError
      else ebind (Image_new (width, height) black) (\<lambda>new_screen.
             Inr (st\<lparr>screen := Some (case screen st of
                                        None \<Rightarrow> new_screen
                                      | Some scr \<Rightarrow> paste new_screen scr (0, 0))\<rparr>)))"

text \<open>A sequence of \<open>updateDesktopSize\<close> calls, one after the other.\<close>

fun updateDesktopSizes ::
  "'a vnc_client_scheme \<Rightarrow> (int \<times> int) list \<Rightarrow> error + 'a vnc_client_scheme" where
  "updateDesktopSizes st [] = Inr st"
| "updateDesktopSizes st (wh # rest) =
     (case updateDesktopSize st (fst wh) (snd wh) of
        Inl e \<Rightarrow> Inl e
      | Inr st1 \<Rightarrow> updateDesktopSizes st1 rest)"

section \<open>Auxiliary definitions of the proofs\<close>

text \<open>
  The version \<open>_handleInitial\<close> picks before it clamps, in closed form: the proofs show
  that \<open>max\<close> over the filtered set computes it and that it is the greatest supported
  version not above the server's.
\<close>

definition pick :: "Ver \<Rightarrow> Ver" where
  "pick sv =
     (if ver_le (5, 0) sv then (5, 0) else if ver_le (4, 1) sv then (4, 1)
      else if ver_le (4, 0) sv then (4, 0) else if ver_le (3, 889) sv then (3, 889)
      else if ver_le (3, 8) sv then (3, 8) else if ver_le (3, 7) sv then (3, 7) else (3, 3))"

text \<open>The states of the worked examples.\<close>

definition corre_client :: rfb_client where
  "corre_client = (connect RFBClient_init)\<lparr>rectangles := 0, rectanglePos := [(0, 0, 16, 16)]\<rparr>"

definition four_raw :: rfb_client where
  "four_raw =
     (connect RFBClient_init)
       \<lparr>rectangles := 96,
        rectanglePos := [(1, 1, 1, 1), (2, 1, 1, 1), (3, 1, 1, 1), (4, 1, 1, 1)],
        calls := [BeginUpdate, UpdateRectangle 1 1 1 1 [1, 1, 1, 1], UpdateRectangle 2 1 1 1 [2, 2, 2, 2],
                  UpdateRectangle 3 1 1 1 [3, 3, 3, 3], UpdateRectangle 4 1 1 1 [4, 4, 4, 4]],
        expected_handler := Some H_Rectangle, expected_len := 12\<rparr>"

text \<open>The sizes \<open>updateDesktopSize\<close> accepts.\<close>

definition valid_desktop_size :: "int \<times> int \<Rightarrow> bool" where
  "valid_desktop_size wh =
     (0 \<le> fst wh \<and> fst wh < MAX_DESKTOP_SIZE \<and> 0 \<le> snd wh \<and> snd wh < MAX_DESKTOP_SIZE)"

definition white :: rgb where
  "white = (0xFF, 0xFF, 0xFF)"

text \<open>A connected client whose screen is two by two white pixels.\<close>

definition white_2x2 :: vnc_client where
  "white_2x2 =
     (connect VNCDoToolClient_init)
       \<lparr>screen := Some \<lparr>im_w = 2, im_h = 2, im_rows = [[white, white], [white, white]]\<rparr>\<rparr>"

text \<open>The positions of the PointerEvent messages (type 5) among the chunks written.\<close>

fun pointer_positions :: "io_event list \<Rightarrow> (int \<times> int) list" where
  "pointer_positions [] = []"
| "pointer_positions (Write [t, m, xh, xl, yh, yl] # es) =
     (if t = 5 then [(be_uint [xh, xl], be_uint [yh, yl])] else []) @ pointer_positions es"
| "pointer_positions (e # es) = pointer_positions es"

section \<open>Properties\<close>

declare decimal.simps [simp del]
declare bit_length.simps [simp del]
declare palette_rle.simps [simp del] plain_rle.simps [simp del]


lemma parse_STRUCT:
  "parse_format STRUCT =
     Inr [FU8, FU8, FBool, FBool, FU16, FU16, FU16, FU8, FU8, FU8, FPad 1, FPad 1, FPad 1]"
  by (simp add: STRUCT_def parse_format_def is_digit_char_def is_space_char_def fields_of_code_def ebind_def)

lemma be_uint_byte: "n \<le> 255 \<Longrightarrow> be_uint [word_of_nat n] = int n"
  by (simp add: be_uint_def uint_word_of_int take_bit_eq_mod unsigned_of_nat)

lemma be_uint_be16: "0 \<le> v \<Longrightarrow> v \<le> 65535 \<Longrightarrow> be_uint (be16 v) = v"
  by (simp add: be_uint_def be16_def uint_word_of_int take_bit_eq_mod)

subsection \<open>PixelFormat on the wire\<close>

lemma to_bytes_wire:
  assumes "wire_typed pf"
  shows "to_bytes pf =
     Inr ([of_int (int (bpp pf)), of_int (int (depth pf)),
           (if bigendian pf then 1 else 0), (if truecolor pf then 1 else 0)]
          @ be16 (int (redmax pf)) @ be16 (int (greenmax pf)) @ be16 (int (bluemax pf))
          @ [of_int (int (redshift pf)), of_int (int (greenshift pf)), of_int (int (blueshift pf)),
             0, 0, 0])"
  using assms
  by (simp add: to_bytes_def pack_def parse_STRUCT ebind_def astuple_def pack_int_def
      int_of_sval_def truth_of_sval_def wire_typed_def)

text \<open>
  A true-colour format that passes the assertions of \<open>__post_init__\<close> fits the wire types.
\<close>

lemma asserts_imply_wire_typed:
  assumes "asserts_hold pf" and "truecolor pf"
  shows "wire_typed pf"
  using assms by (auto simp: asserts_hold_def wire_typed_def max_shift_ok_def)

text \<open>
  Claim C8. For every PixelFormat whose fields fit the types the source declares for them
  (\<open>u8\<close> for bpp, depth and the shifts, \<open>u16\<close> for the maxima), \<open>to_bytes\<close> returns
  a byte string of length exactly 16, and \<open>from_bytes\<close> of that string is the format
  itself.
\<close>

theorem pixelformat_roundtrip:
  assumes "wire_typed pf"
  shows "\<exists>bs. to_bytes pf = Inr bs \<and> length bs = 16 \<and> from_bytes bs = Inr pf"
proof -
  let ?bs = "[of_int (int (bpp pf)), of_int (int (depth pf)),
           (if bigendian pf then 1 else 0), (if truecolor pf then 1 else 0)]
          @ be16 (int (redmax pf)) @ be16 (int (greenmax pf)) @ be16 (int (bluemax pf))
          @ [of_int (int (redshift pf)), of_int (int (greenshift pf)), of_int (int (blueshift pf)),
             0, 0, 0::byte]"
  have len: "length ?bs = 16" by (simp add: be16_def)
  have r: "be_uint (be16 (int (redmax pf))) = int (redmax pf)"
      "be_uint (be16 (int (greenmax pf))) = int (greenmax pf)"
      "be_uint (be16 (int (bluemax pf))) = int (bluemax pf)"
    using assms by (simp_all add: be_uint_be16 wire_typed_def)
  have b: "be_uint [word_of_nat (bpp pf)] = int (bpp pf)"
      "be_uint [word_of_nat (depth pf)] = int (depth pf)"
      "be_uint [word_of_nat (redshift pf)] = int (redshift pf)"
      "be_uint [word_of_nat (greenshift pf)] = int (greenshift pf)"
      "be_uint [word_of_nat (blueshift pf)] = int (blueshift pf)"
    using assms by (simp_all add: be_uint_byte wire_typed_def)
  have bl: "\<And>c. (be_uint [if c then 1 else (0::byte)] \<noteq> 0) = c"
    by (simp add: be_uint_def)
  have "unpack STRUCT ?bs = Inr (astuple pf)"
    using r b unfolding unpack_def parse_STRUCT ebind_def astuple_def
    by (simp add: calcsize_def be16_def bl)
  then have "from_bytes ?bs = Inr pf"
    by (simp add: from_bytes_def ebind_def astuple_def post_init_def VALIDATE_def)
  with len to_bytes_wire[OF assms] show ?thesis by blast
qed

theorem pixelformat_roundtrip_witness:
  "wire_typed PixelFormat_default
   \<and> to_bytes PixelFormat_default = Inr [32, 24, 0, 1, 0, 255, 0, 255, 0, 255, 0, 8, 16, 0, 0, 0]
   \<and> from_bytes [32, 24, 0, 1, 0, 255, 0, 255, 0, 255, 0, 8, 16, 0, 0, 0] = Inr PixelFormat_default"
proof -
  have w: "wire_typed PixelFormat_default"
    by (simp add: wire_typed_def PixelFormat_default_def)
  have t: "to_bytes PixelFormat_default = Inr [32, 24, 0, 1, 0, 255, 0, 255, 0, 255, 0, 8, 16, 0, 0, 0]"
    by (simp add: to_bytes_wire[OF w] be16_def) (simp add: PixelFormat_default_def)
  from pixelformat_roundtrip[OF w] t w show ?thesis by auto
qed

subsection \<open>The protocol version\<close>



lemma fmt_03d_small: "fmt_03d 3 = ascii ''003''" "fmt_03d 7 = ascii ''007''" "fmt_03d 8 = ascii ''008''"
  by (simp_all add: fmt_03d_def decimal.simps ascii_def numeral_2_eq_2)

lemma py_int_3: "is_digit a \<Longrightarrow> is_digit b \<Longrightarrow> is_digit c \<Longrightarrow> py_int [a, b, c] = Inr (dec3 a b c)"
  by (simp add: py_int_def dec3_def)

lemma dec3_nonneg: "is_digit a \<Longrightarrow> is_digit b \<Longrightarrow> is_digit c \<Longrightarrow> 0 \<le> dec3 a b c"
  by (simp add: dec3_def is_digit_def word_le_def)

lemma py_max_pick:
  "ver_le (3, 3) sv \<Longrightarrow> py_max (filter (\<lambda>v. ver_le v sv) SUPPORTED_SERVER_VERSIONS) = Inr (pick sv)"
  by (cases sv) (auto simp: SUPPORTED_SERVER_VERSIONS_def py_max_def ver_le_def ver_lt_def pick_def)

lemma py_max_empty:
  "\<not> ver_le (3, 3) sv \<Longrightarrow> py_max (filter (\<lambda>v. ver_le v sv) SUPPORTED_SERVER_VERSIONS) = Inl ValueError"
  by (cases sv) (auto simp: SUPPORTED_SERVER_VERSIONS_def py_max_def ver_le_def ver_lt_def)

lemma pick_greatest:
  "ver_le (3, 3) sv \<Longrightarrow> pick sv \<in> set SUPPORTED_SERVER_VERSIONS \<and> ver_le (pick sv) sv
    \<and> (\<forall>u\<in>set SUPPORTED_SERVER_VERSIONS. ver_le u sv \<longrightarrow> ver_le u (pick sv))"
  by (cases sv) (auto simp: SUPPORTED_SERVER_VERSIONS_def ver_le_def pick_def)


lemma norm_banner:
  assumes "list_all is_digit [d1, d2, d3, d4, d5, d6]"
  shows "map HEADER_TRANSLATE (banner [d1, d2, d3] [d4, d5, d6]) = HEADER"
  using assms by (simp add: banner_def HEADER_def HEADER_TRANSLATE_def ascii_def is_digit_def)

lemma pick_cases:
  "ver_le (3, 3) sv \<Longrightarrow>
   (if ver_lt MAX_CLIENT_VERSION (pick sv) then MAX_CLIENT_VERSION else pick sv) \<in> {(3, 3), (3, 7), (3, 8)}"
  by (cases sv) (auto simp: ver_le_def ver_lt_def pick_def MAX_CLIENT_VERSION_def)

lemma fmt_banner:
  "v \<in> {(3, 3), (3, 7), (3, 8)} \<Longrightarrow>
   ascii ''RFB '' @ fmt_03d (fst v) @ ascii ''.'' @ fmt_03d (snd v) @ [0x0A]
     = banner (ascii ''00'' @ [of_int (48 + fst v)]) (ascii ''00'' @ [of_int (48 + snd v)])"
  by (auto simp: fmt_03d_small banner_def ascii_def)

lemma handleExpected_waits:
  "int (length (packet st)) < expected_len st \<Longrightarrow> handleExpected run st = Some (Inr st)"
  by (simp add: handleExpected.simps[of run st])

text \<open>
  Claim C1, as amended. For every server banner \<open>RFB ddd.ddd\n\<close> whose version is at
  least (3,3), the client in the Initial state (connected, so that it has a writer)
  selects the largest version of the supported set that is not above the server's, clamps
  it to (3,8), and writes back the banner \<open>RFB 00M.0mm\n\<close> of the result, which is one
  of (3,3), (3,7) and (3,8). It then waits for a block of 4 bytes (version 3.3) or of 1
  byte, and turns to the bytes that follow the banner in the packet: when they are fewer
  than that block, in particular when the banner is all that has arrived, it returns in
  that state, the banner being all it has written; otherwise it goes on with the handlers
  of the next messages before it returns.
\<close>

theorem handleInitial_banner:
  assumes digits: "list_all is_digit [d1, d2, d3, d4, d5, d6]"
    and pkt: "packet st = banner [d1, d2, d3] [d4, d5, d6] @ tail"
    and sv: "sv = (dec3 d1 d2 d3, dec3 d4 d5 d6)"
    and supported: "ver_le (3, 3) sv"
    and w: "writer st"
  shows "\<exists>st' v. handleInitial run st = handleExpected run st'
           \<and> (int (length tail) < expected_len st' \<longrightarrow> handleInitial run st = Some (Inr st'))
           \<and> packet st' = tail
           \<and> expected_len st' = (if version st' = (3, 3) then 4 else 1)
           \<and> v \<in> set SUPPORTED_SERVER_VERSIONS \<and> ver_le v sv
           \<and> (\<forall>u\<in>set SUPPORTED_SERVER_VERSIONS. ver_le u sv \<longrightarrow> ver_le u v)
           \<and> version st' = (if ver_lt (3, 8) v then (3, 8) else v)
           \<and> version_server st' = sv
           \<and> version st' \<in> {(3, 3), (3, 7), (3, 8)}
           \<and> io_log st' = io_log st @
                [Write (banner (ascii ''00'' @ [of_int (48 + fst (version st'))])
                               (ascii ''00'' @ [of_int (48 + snd (version st'))]))]"
proof -
  define ver where "ver = (if ver_lt MAX_CLIENT_VERSION (pick sv) then MAX_CLIENT_VERSION else pick sv)"
  define st3 where "st3 =
    (rfb_write (st\<lparr>packet := drop 12 (packet st)\<rparr>)
       (ascii ''RFB '' @ fmt_03d (fst ver) @ ascii ''.'' @ fmt_03d (snd ver) @ [0x0A]))
    \<lparr>handler := HandleExpected, version := ver, version_server := sv\<rparr>"
  define st' where "st' =
    (if ver_lt ver (3, 7) then expect st3 H_Auth 4 else expect st3 H_NumberSecurityTypes 1)"
  have d: "is_digit d1" "is_digit d2" "is_digit d3" "is_digit d4" "is_digit d5" "is_digit d6"
    using digits by simp_all
  have len: "length (banner [d1, d2, d3] [d4, d5, d6]) = 12"
    by (simp add: banner_def ascii_def)
  have head: "take 12 (packet st) = banner [d1, d2, d3] [d4, d5, d6]"
    unfolding pkt using len by simp
  have tl: "drop 12 (packet st) = tail"
    unfolding pkt using len by simp
  have major: "py_int (take 3 (drop 4 (banner [d1, d2, d3] [d4, d5, d6]))) = Inr (dec3 d1 d2 d3)"
    using d by (simp add: banner_def ascii_def py_int_3)
  have minor: "py_int (take 3 (drop 8 (banner [d1, d2, d3] [d4, d5, d6]))) = Inr (dec3 d4 d5 d6)"
    using d by (simp add: banner_def ascii_def py_int_3)
  have run: "handleInitial run st = handleExpected run st'"
    unfolding handleInitial_def Let_def head norm_banner[OF digits] major minor
    using py_max_pick[OF supported] by (simp add: ebind_def sv st'_def st3_def ver_def)
  have vc: "ver \<in> {(3, 3), (3, 7), (3, 8)}"
    unfolding ver_def by (rule pick_cases[OF supported])
  have v: "version st' = ver" by (simp add: st'_def st3_def expect_def)
  have srv: "version_server st' = sv" by (simp add: st'_def st3_def expect_def)
  have p: "packet st' = tail"
    using tl by (simp add: st'_def st3_def expect_def rfb_write_def)
  have el: "expected_len st' = (if version st' = (3, 3) then 4 else 1)"
    unfolding v using vc by (auto simp: st'_def expect_def ver_lt_def)
  have ret: "int (length tail) < expected_len st' \<longrightarrow> handleInitial run st = Some (Inr st')"
    unfolding run using handleExpected_waits[of st' run] p by simp
  have io: "io_log st' = io_log st @
      [Write (banner (ascii ''00'' @ [of_int (48 + fst (version st'))])
                     (ascii ''00'' @ [of_int (48 + snd (version st'))]))]"
    unfolding v fmt_banner[OF vc, symmetric]
    using w by (simp add: st'_def st3_def expect_def rfb_write_def)
  have clamp: "version st' = (if ver_lt (3, 8) (pick sv) then (3, 8) else pick sv)"
    unfolding v by (simp add: ver_def MAX_CLIENT_VERSION_def)
  have vc': "version st' \<in> {(3, 3), (3, 7), (3, 8)}"
    using vc v by simp
  from pick_greatest[OF supported] run ret p el clamp srv vc' io show ?thesis
    by blast
qed

text \<open>
  The banner of a 3.889 server, alone in the packet: the client answers \<open>RFB 003.008\n\<close>
  and waits for the number of security types; no handler is called.
\<close>

theorem handleInitial_banner_witness:
  "handleInitial (\<lambda>h block. Inr) (connect (RFBClient_init\<lparr>packet := ascii ''RFB 003.889'' @ [0x0A]\<rparr>))
   = Some (Inr ((connect RFBClient_init)
           \<lparr>packet := [], handler := HandleExpected,
            expected_handler := Some H_NumberSecurityTypes, expected_len := 1,
            version := (3, 8), version_server := (3, 889),
            io_log := [Write (ascii ''RFB 003.008'' @ [0x0A])]\<rparr>))"
proof -
  let ?st = "connect (RFBClient_init\<lparr>packet := ascii ''RFB 003.889'' @ [0x0A]\<rparr>)"
  let ?st' = "(connect RFBClient_init)
           \<lparr>packet := [], handler := HandleExpected,
            expected_handler := Some H_NumberSecurityTypes, expected_len := 1,
            version := (3, 8), version_server := (3, 889),
            io_log := [Write (ascii ''RFB 003.008'' @ [0x0A])]\<rparr>"
  have digits: "list_all is_digit [0x30, 0x30, 0x33, 0x38, 0x38, 0x39]"
    by (simp add: is_digit_def)
  have pkt: "packet ?st = banner [0x30, 0x30, 0x33] [0x38, 0x38, 0x39] @ []"
    by (simp add: connect_def banner_def ascii_def)
  have sv: "(3, 889) = (dec3 0x30 0x30 0x33, dec3 0x38 0x38 0x39)"
    by (simp add: dec3_def)
  have sup: "ver_le (3, 3) (3, 889)" by (simp add: ver_le_def)
  have w: "writer ?st" by (simp add: connect_def)
  from handleInitial_banner[OF digits pkt sv sup w, of "\<lambda>h block. Inr"]
  obtain st' where r: "handleInitial (\<lambda>h block. Inr) ?st = handleExpected (\<lambda>h block. Inr) st'"
      and ret: "int (length ([] :: byte list)) < expected_len st'
                  \<longrightarrow> handleInitial (\<lambda>h block. Inr) ?st = Some (Inr st')"
      and el: "expected_len st' = (if version st' = (3, 3) then 4 else 1)"
    by blast
  from el ret have some: "handleInitial (\<lambda>h block. Inr) ?st = Some (Inr st')"
    by (simp split: if_splits)
  have "handleInitial (\<lambda>h block. Inr) ?st = handleExpected (\<lambda>h block. Inr) ?st'"
    by (simp add: handleInitial_def connect_def RFBClient_init_def ascii_def HEADER_def
        HEADER_TRANSLATE_def is_digit_def py_int_def ebind_def SUPPORTED_SERVER_VERSIONS_def
        ver_le_def ver_lt_def py_max_def MAX_CLIENT_VERSION_def fmt_03d_small
        rfb_write_def expect_def)
  also have "\<dots> = Some (Inr ?st')"
    by (rule handleExpected_waits) simp
  finally show ?thesis using some by simp
qed

text \<open>
  The claim as stated also covers the banners below 3.3. There the filtered set is empty,
  \<open>max\<close> raises \<open>ValueError\<close>, and nothing is written.
\<close>

theorem handleInitial_old_server_raises:
  "handleInitial (\<lambda>h block. Inr) (connect (RFBClient_init\<lparr>packet := ascii ''RFB 003.002'' @ [0x0A]\<rparr>))
   = Some (Inl ValueError)"
  by (simp add: handleInitial_def connect_def RFBClient_init_def ascii_def HEADER_def
      HEADER_TRANSLATE_def is_digit_def py_int_def ebind_def SUPPORTED_SERVER_VERSIONS_def
      ver_le_def ver_lt_def py_max_def)


subsection \<open>VNC authentication\<close>


lemma and_push_bit_1: "(n AND push_bit i (1::nat) \<noteq> 0) = bit n i"
  by (simp add: push_bit_of_1 and_exp_eq_0_iff_not_bit)

lemma reversed_sum_horner:
  "reversed_sum k = horner_sum of_bool 2
     [bit k 7, bit k 6, bit k 5, bit k 4, bit k 3, bit k 2, bit k 1, bit k 0]"
proof -
  have up: "[0..<8] = [0, 1, 2, 3, 4, 5, 6, 7::nat]"
    by (simp add: upt_rec)
  have b: "\<And>i. (unat k AND push_bit i (1::nat) \<noteq> 0) = bit k i"
    unfolding and_push_bit_1 by (simp add: bit_unsigned_iff)
  show ?thesis
    unfolding reversed_sum_def up b
    by (simp add: drop_bit_eq_div)
qed




lemma reversed_sum_lt: "reversed_sum k < 256"
  unfolding reversed_sum_horner by (simp add: of_bool_def)







subsection \<open>CoRRE subrectangles\<close>


lemma corre_format_bad: "parse_format ''!{self.bypp}sBBBB'' = Inl StructError"
  by (simp add: parse_format_def is_digit_char_def is_space_char_def fields_of_code_def)

lemma corre_unpack_bad: "unpack ''!{self.bypp}sBBBB'' bs = Inl StructError"
  by (simp add: unpack_def corre_format_bad ebind_def)

lemma handleDecodeCORRERectangles_raises:
  "handleDecodeCORRERectangles st block topx topy = Inl StructError"
  by (simp add: handleDecodeCORRERectangles_def corre_unpack_bad)

lemma parse_I: "parse_format ''!I'' = Inr [FU32]"
  by (simp add: parse_format_def is_digit_char_def is_space_char_def fields_of_code_def ebind_def)

text \<open>
  Claim C3 on the code. A CoRRE rectangle with one subrectangle, 32 bits a pixel:
  \<open>_handleDecodeCORRE\<close> fills the background and waits for \<open>(bypp + 4) * 1 = 8\<close>
  bytes, as the claim says; \<open>_handleDecodeCORRERectangles\<close> then raises
  \<open>struct.error\<close> on its first \<open>unpack\<close> and fills no subrectangle.
\<close>

theorem corre_subrectangle_not_filled:
  "handleDecodeCORRE corre_client [0, 0, 0, 1, 0x10, 0x20, 0x30, 0x40] 0 0 16 16
     = Inr (corre_client
             \<lparr>calls := [UpdateRectangle 0 0 16 16 (bytes_mul (bytes_mul [0x10, 0x20, 0x30, 0x40] 16) 16)],
              expected_handler := Some (H_DecodeCORRERectangles 0 0), expected_len := 8\<rparr>)
   \<and> handleDecodeCORRERectangles
        (corre_client
          \<lparr>calls := [UpdateRectangle 0 0 16 16 (bytes_mul (bytes_mul [0x10, 0x20, 0x30, 0x40] 16) 16)],
           expected_handler := Some (H_DecodeCORRERectangles 0 0), expected_len := 8\<rparr>)
        [0xAA, 0xBB, 0xCC, 0xDD, 1, 2, 3, 4] 0 0
     = Inl StructError"
  by (simp add: handleDecodeCORRE_def corre_client_def connect_def RFBClient_init_def unpack_def parse_I
      ebind_def calcsize_def be_uint_def rfb_fillRectangle_def rfb_updateRectangle_def expect_def
      bypp_def PixelFormat_default_def handleDecodeCORRERectangles_raises)

lemma parse_4sHHHH: "parse_format (''!'' @ decimal 4 @ ''sHHHH'') = Inr [FBytes 4, FU16, FU16, FU16, FU16]"
  by (simp add: decimal.simps parse_format_def is_digit_char_def is_space_char_def fields_of_code_def ebind_def)

text \<open>The RRE handler, which formats its format string, fills the subrectangle.\<close>

lemma rre_subrectangle_filled:
  "handleRRESubRectangles corre_client [0xAA, 0xBB, 0xCC, 0xDD, 0, 1, 0, 2, 0, 3, 0, 4] 10 20
     = Inr (corre_client
             \<lparr>calls := [UpdateRectangle 11 22 3 4 (bytes_mul (bytes_mul [0xAA, 0xBB, 0xCC, 0xDD] 3) 4),
                        CommitUpdate [(0, 0, 16, 16)]],
              expected_handler := Some H_Connection, expected_len := 1\<rparr>)"
  by (simp add: handleRRESubRectangles_def corre_client_def connect_def RFBClient_init_def
      bypp_def PixelFormat_default_def unpack_def parse_4sHHHH[simplified] ebind_def calcsize_def be_uint_def
      rfb_fillRectangle_def rfb_updateRectangle_def doConnection_def commitUpdate_def expect_def)


subsection \<open>The last rectangle of an update\<close>


lemmas enc_defs = Encoding_RAW_def Encoding_COPY_RECTANGLE_def Encoding_RRE_def Encoding_CORRE_def
  Encoding_HEXTILE_def Encoding_ZRLE_def Encoding_PSEUDO_DESKTOP_SIZE_def Encoding_PSEUDO_LAST_RECT_def
  Encoding_PSEUDO_CURSOR_def Encoding_PSEUDO_QEMU_EXTENDED_KEY_EVENT_def Encoding_PSEUDO_QEMU_AUDIO_def

lemma doConnection_fields:
  "rectangles (doConnection st) = rectangles st" "rectanglePos (doConnection st) = rectanglePos st"
  by (simp_all add: doConnection_def expect_def commitUpdate_def)


lemma disconnect_fields:
  "rectangles (disconnect st) = rectangles st" "rectanglePos (disconnect st) = rectanglePos st"
  by (simp_all add: disconnect_def Let_def)

lemma expect_fields:
  "rectangles (expect st h n) = rectangles st" "rectanglePos (expect st h n) = rectanglePos st"
  by (simp_all add: expect_def)

lemma doNextHextileSubrect_first:
  "\<exists>st'. doNextHextileSubrect st None None x y w h None None = Inr st'
     \<and> rectangles st' = rectangles st \<and> rectanglePos st' = rectanglePos st"
  by (simp add: doNextHextileSubrect_def ebind_def doConnection_fields expect_fields)

lemma handleRectangle_records:
  assumes hdr: "unpack ''!HHHHi'' block = Inr [VInt x, VInt y, VInt w, VInt h, VInt enc]"
    and pending: "rectangles st \<noteq> 0"
    and real: "enc \<noteq> Encoding_PSEUDO_LAST_RECT" "enc \<noteq> Encoding_PSEUDO_QEMU_EXTENDED_KEY_EVENT"
      "enc \<noteq> Encoding_PSEUDO_QEMU_AUDIO"
  shows "\<exists>st'. handleRectangle st block = Inr st' \<and> rectangles st' = rectangles st - 1
           \<and> rectanglePos st' = rectanglePos st @ [(x, y, w, h)]"
proof -
  define st2 where "st2 = st\<lparr>rectangles := rectangles st - 1, rectanglePos := rectanglePos st @ [(x, y, w, h)]\<rparr>"
  have f: "rectangles st2 = rectangles st - 1" "rectanglePos st2 = rectanglePos st @ [(x, y, w, h)]"
    by (simp_all add: st2_def)
  have unfold: "handleRectangle st block =
     (let n = int (bypp (pixel_format st2))
      in if enc = Encoding_COPY_RECTANGLE then Inr (expect st2 (H_DecodeCopyrect x y w h) 4)
         else if enc = Encoding_RAW then Inr (expect st2 (H_DecodeRAW x y w h) (w * h * n))
         else if enc = Encoding_HEXTILE then doNextHextileSubrect st2 None None x y w h None None
         else if enc = Encoding_CORRE then Inr (expect st2 (H_DecodeCORRE x y w h) (4 + n))
         else if enc = Encoding_RRE then Inr (expect st2 (H_DecodeRRE x y w h) (4 + n))
         else if enc = Encoding_ZRLE then Inr (expect st2 (H_DecodeZRLE x y w h) 4)
         else if enc = Encoding_PSEUDO_CURSOR then
           Inr (expect st2 (H_DecodePsuedoCursor x y w h) (w * h * n + ((w + 7) div 8) * h))
         else if enc = Encoding_PSEUDO_DESKTOP_SIZE then Inr (handleDecodeDesktopSize st2 w h)
         else Inr (disconnect st2))"
    using pending real unfolding handleRectangle_def hdr st2_def
    by (simp add: ebind_def Let_def)
  have ds: "rectangles (handleDecodeDesktopSize st2 w h) = rectangles st2"
      "rectanglePos (handleDecodeDesktopSize st2 w h) = rectanglePos st2"
    by (simp_all add: handleDecodeDesktopSize_def doConnection_fields rfb_updateDesktopSize_def)
  from doNextHextileSubrect_first[of st2 x y w h]
  obtain sh where sh: "doNextHextileSubrect st2 None None x y w h None None = Inr sh"
      "rectangles sh = rectangles st2" "rectanglePos sh = rectanglePos st2"
    by blast
  show ?thesis
    unfolding unfold Let_def using f ds sh
    by (simp add: expect_fields disconnect_fields)
qed


lemma parse_xH: "parse_format ''!xH'' = Inr [FPad 1, FU16]"
  by (simp add: parse_format_def is_digit_char_def is_space_char_def fields_of_code_def ebind_def)

lemma parse_HHHHi: "parse_format ''!HHHHi'' = Inr [FU16, FU16, FU16, FU16, FI32]"
  by (simp add: parse_format_def is_digit_char_def is_space_char_def fields_of_code_def ebind_def)

lemma unpack_rect_header:
  "unpack ''!HHHHi'' [a1, a2, b1, b2, c1, c2, d1, d2, e1, e2, e3, e4] =
     Inr [VInt (be_uint [a1, a2]), VInt (be_uint [b1, b2]), VInt (be_uint [c1, c2]),
          VInt (be_uint [d1, d2]),
          VInt (if be_uint [e1, e2, e3, e4] \<ge> 2147483648 then be_uint [e1, e2, e3, e4] - 4294967296
                else be_uint [e1, e2, e3, e4])]"
  by (simp add: unpack_def parse_HHHHi ebind_def calcsize_def)

lemma last_rect_header:
  "unpack ''!HHHHi'' [0, 0, 0, 0, 0, 0, 0, 0, 0xFF, 0xFF, 0xFF, 0x20]
     = Inr [VInt 0, VInt 0, VInt 0, VInt 0, VInt Encoding_PSEUDO_LAST_RECT]"
  by (simp add: unpack_rect_header be_uint_def Encoding_PSEUDO_LAST_RECT_def)

lemma handleFramebufferUpdate_100:
  "handleFramebufferUpdate (connect RFBClient_init) [0, 0, 100]
     = Inr ((connect RFBClient_init)
             \<lparr>rectangles := 100, rectanglePos := [], calls := [BeginUpdate],
              expected_handler := Some H_Rectangle, expected_len := 12\<rparr>)"
  by (simp add: handleFramebufferUpdate_def unpack_def parse_xH ebind_def calcsize_def be_uint_def
      doConnection_def beginUpdate_def expect_def connect_def RFBClient_init_def)

lemma four_raw_reached:
  "ebind (handleFramebufferUpdate (connect RFBClient_init) [0, 0, 100]) (\<lambda>s0.
   ebind (handleRectangle s0 [0, 1, 0, 1, 0, 1, 0, 1, 0, 0, 0, 0]) (\<lambda>s1.
   ebind (handleDecodeRAW s1 [1, 1, 1, 1] 1 1 1 1) (\<lambda>s2.
   ebind (handleRectangle s2 [0, 2, 0, 1, 0, 1, 0, 1, 0, 0, 0, 0]) (\<lambda>s3.
   ebind (handleDecodeRAW s3 [2, 2, 2, 2] 2 1 1 1) (\<lambda>s4.
   ebind (handleRectangle s4 [0, 3, 0, 1, 0, 1, 0, 1, 0, 0, 0, 0]) (\<lambda>s5.
   ebind (handleDecodeRAW s5 [3, 3, 3, 3] 3 1 1 1) (\<lambda>s6.
   ebind (handleRectangle s6 [0, 4, 0, 1, 0, 1, 0, 1, 0, 0, 0, 0]) (\<lambda>s7.
          handleDecodeRAW s7 [4, 4, 4, 4] 4 1 1 1))))))))
   = Inr four_raw"
  unfolding handleFramebufferUpdate_100
  by (simp add: handleRectangle_def unpack_rect_header be_uint_def
      ebind_def Let_def enc_defs expect_def handleDecodeRAW_def rfb_updateRectangle_def
      doConnection_def four_raw_def connect_def RFBClient_init_def bypp_def PixelFormat_default_def)

text \<open>
  Claim C4, as amended. When the header of a rectangle of a FramebufferUpdate carries the
  encoding PseudoLastRect, the pending count is set to 0, no position is recorded for
  that header, and the client goes back to message dispatch; before that
  \<open>commitUpdate\<close> is called with the positions recorded for the preceding rectangles
  when there are any, and is not called when there are none.
\<close>

theorem last_rect_commits:
  assumes hdr: "unpack ''!HHHHi'' block = Inr [VInt x, VInt y, VInt w, VInt h, VInt enc]"
  shows "(enc = Encoding_PSEUDO_LAST_RECT \<longrightarrow>
            handleRectangle st block =
              Inr (st\<lparr>rectangles := 0,
                      calls := calls st @ (if rectanglePos st = [] then []
                                           else [CommitUpdate (rectanglePos st)]),
                      expected_handler := Some H_Connection, expected_len := 1\<rparr>))
         \<and> (enc \<noteq> Encoding_PSEUDO_LAST_RECT \<and> enc \<noteq> Encoding_PSEUDO_QEMU_EXTENDED_KEY_EVENT
              \<and> enc \<noteq> Encoding_PSEUDO_QEMU_AUDIO \<and> rectangles st \<noteq> 0 \<longrightarrow>
            (\<exists>st'. handleRectangle st block = Inr st' \<and> rectangles st' = rectangles st - 1
                \<and> rectanglePos st' = rectanglePos st @ [(x, y, w, h)]))"
proof -
  have last: "handleRectangle st block =
              Inr (st\<lparr>rectangles := 0,
                      calls := calls st @ (if rectanglePos st = [] then []
                                           else [CommitUpdate (rectanglePos st)]),
                      expected_handler := Some H_Connection, expected_len := 1\<rparr>)"
    if "enc = Encoding_PSEUDO_LAST_RECT"
    using that
    by (simp add: handleRectangle_def hdr ebind_def Let_def doConnection_def expect_def commitUpdate_def)
  from last handleRectangle_records[OF hdr] show ?thesis by blast
qed

text \<open>
  The example of the specification: 100 rectangles declared, four Raw rectangles, and
  the fifth header PseudoLastRect. \<open>four_raw\<close> is the state after the four; a fifth Raw
  header would be recorded as the fifth position, the PseudoLastRect header commits the
  four.
\<close>

theorem last_rect_commits_witness:
  "unpack ''!HHHHi'' [0, 0, 0, 0, 0, 0, 0, 0, 0xFF, 0xFF, 0xFF, 0x20]
     = Inr [VInt 0, VInt 0, VInt 0, VInt 0, VInt Encoding_PSEUDO_LAST_RECT]
   \<and> handleRectangle four_raw [0, 0, 0, 0, 0, 0, 0, 0, 0xFF, 0xFF, 0xFF, 0x20]
     = Inr ((connect RFBClient_init)
             \<lparr>rectangles := 0,
              rectanglePos := [(1, 1, 1, 1), (2, 1, 1, 1), (3, 1, 1, 1), (4, 1, 1, 1)],
              calls := [BeginUpdate, UpdateRectangle 1 1 1 1 [1, 1, 1, 1], UpdateRectangle 2 1 1 1 [2, 2, 2, 2],
                        UpdateRectangle 3 1 1 1 [3, 3, 3, 3], UpdateRectangle 4 1 1 1 [4, 4, 4, 4],
                        CommitUpdate [(1, 1, 1, 1), (2, 1, 1, 1), (3, 1, 1, 1), (4, 1, 1, 1)]],
              expected_handler := Some H_Connection, expected_len := 1\<rparr>)
   \<and> unpack ''!HHHHi'' [0, 5, 0, 1, 0, 1, 0, 1, 0, 0, 0, 0]
     = Inr [VInt 5, VInt 1, VInt 1, VInt 1, VInt Encoding_RAW]
   \<and> (\<exists>st'. handleRectangle four_raw [0, 5, 0, 1, 0, 1, 0, 1, 0, 0, 0, 0] = Inr st'
         \<and> rectangles st' = 95
         \<and> rectanglePos st' = [(1, 1, 1, 1), (2, 1, 1, 1), (3, 1, 1, 1), (4, 1, 1, 1), (5, 1, 1, 1)])"
proof -
  have raw: "unpack ''!HHHHi'' [0, 5, 0, 1, 0, 1, 0, 1, 0, 0, 0, 0]
     = Inr [VInt 5, VInt 1, VInt 1, VInt 1, VInt Encoding_RAW]"
    by (simp add: unpack_rect_header be_uint_def Encoding_RAW_def)
  have a: "handleRectangle four_raw [0, 0, 0, 0, 0, 0, 0, 0, 0xFF, 0xFF, 0xFF, 0x20]
     = Inr ((connect RFBClient_init)
             \<lparr>rectangles := 0,
              rectanglePos := [(1, 1, 1, 1), (2, 1, 1, 1), (3, 1, 1, 1), (4, 1, 1, 1)],
              calls := [BeginUpdate, UpdateRectangle 1 1 1 1 [1, 1, 1, 1], UpdateRectangle 2 1 1 1 [2, 2, 2, 2],
                        UpdateRectangle 3 1 1 1 [3, 3, 3, 3], UpdateRectangle 4 1 1 1 [4, 4, 4, 4],
                        CommitUpdate [(1, 1, 1, 1), (2, 1, 1, 1), (3, 1, 1, 1), (4, 1, 1, 1)]],
              expected_handler := Some H_Connection, expected_len := 1\<rparr>)"
    using last_rect_commits[OF last_rect_header, of four_raw]
    by (simp add: four_raw_def connect_def RFBClient_init_def)
  have b: "\<exists>st'. handleRectangle four_raw [0, 5, 0, 1, 0, 1, 0, 1, 0, 0, 0, 0] = Inr st'
         \<and> rectangles st' = 95
         \<and> rectanglePos st' = [(1, 1, 1, 1), (2, 1, 1, 1), (3, 1, 1, 1), (4, 1, 1, 1), (5, 1, 1, 1)]"
    using last_rect_commits[OF raw, of four_raw]
    by (simp add: four_raw_def enc_defs)
  from last_rect_header a raw b show ?thesis by blast
qed

text \<open>
  When the first header of an update is PseudoLastRect, \<open>commitUpdate\<close> is not called.
\<close>

theorem last_rect_first_no_commit:
  "ebind (handleFramebufferUpdate (connect RFBClient_init) [0, 0, 100])
     (\<lambda>s. handleRectangle s [0, 0, 0, 0, 0, 0, 0, 0, 0xFF, 0xFF, 0xFF, 0x20])
   = Inr ((connect RFBClient_init)
           \<lparr>rectangles := 0, rectanglePos := [], calls := [BeginUpdate],
            expected_handler := Some H_Connection, expected_len := 1\<rparr>)"
  unfolding handleFramebufferUpdate_100
  by (simp add: ebind_def handleRectangle_def last_rect_header Let_def
      doConnection_def expect_def connect_def RFBClient_init_def)


subsection \<open>ZRLE run lengths\<close>


lemma rle_while_stop: "nxt \<noteq> 255 \<Longrightarrow> rle_while nxt len it = Inr (len, it)"
  by (cases it) simp_all

lemma rle_while_run:
  "list_all (\<lambda>b. b = 255) ffs \<Longrightarrow> b \<noteq> 255 \<Longrightarrow>
   rle_while 255 len (ffs @ b # rest) = Inr (len + sum_list (map unat (ffs @ [b])), rest)"
proof (induction ffs arbitrary: len)
  case Nil
  then show ?case by (simp add: rle_while_stop)
next
  case (Cons f fs)
  then have "f = 255" by simp
  with Cons show ?case by (simp add: add.assoc)
qed

text \<open>\<open>pixel * n\<close> for a count that is not negative: \<open>n\<close> copies of the pixel, one after another.\<close>

lemma bytes_mul_copies: "bytes_mul bs (int n) = concat (replicate n bs)"
  by (simp add: bytes_mul_def)

lemma do_rle_run_mul:
  assumes "list_all (\<lambda>b. b = 255) ffs" "b \<noteq> 255"
  shows "do_rle pixel (ffs @ b # rest) pixel_data =
           Inr (1 + sum_list (map unat (ffs @ [b])), rest,
                pixel_data @ bytes_mul pixel (int (1 + sum_list (map unat (ffs @ [b])))))"
proof (cases ffs)
  case Nil
  with assms show ?thesis by (simp add: do_rle_def rle_while_stop)
next
  case (Cons f fs)
  with assms have f: "f = 255" and fs: "list_all (\<lambda>b. b = 255) fs" by simp_all
  have u: "unat (255 :: byte) = 255" by simp
  have r: "rle_while 255 255 (fs @ b # rest) = Inr (255 + sum_list (map unat (fs @ [b])), rest)"
    by (rule rle_while_run[OF fs assms(2)])
  have s: "1 + sum_list (map unat ((255 # fs) @ [b])) = 255 + sum_list (map unat (fs @ [b])) + 1"
    by (simp add: u)
  show ?thesis
    unfolding Cons f s by (simp add: do_rle_def u r del: unsigned_numeral)
qed

lemma do_rle_run:
  assumes "list_all (\<lambda>b. b = 255) ffs" "b \<noteq> 255"
  shows "do_rle pixel (ffs @ b # rest) pixel_data =
           Inr (1 + sum_list (map unat (ffs @ [b])), rest,
                pixel_data @ concat (replicate (1 + sum_list (map unat (ffs @ [b]))) pixel))"
  using do_rle_run_mul[OF assms, of pixel rest pixel_data] unfolding bytes_mul_copies .

text \<open>
  Claim C5. In ZRLE RLE decoding the run length is 1 plus the sum of the run-length bytes
  up to and including the first byte below 255, and \<open>do_rle\<close> appends exactly that many
  copies of the pixel to the pixel data; in a palette RLE tile an index byte with the high
  bit set emits a run of that length of the palette entry its low seven bits select.
\<close>

theorem zrle_run_length:
  assumes "list_all (\<lambda>b. b = 255) ffs" and "b \<noteq> 255"
    and "n = 1 + sum_list (map unat (ffs @ [b]))"
  shows "do_rle pixel (ffs @ b # rest) pixel_data
           = Inr (n, rest, pixel_data @ concat (replicate n pixel))
         \<and> (num_pixels < pixels_in_tile \<and> idx AND 0x80 \<noteq> 0 \<and> unat (idx AND 0x7F) < length palette
            \<longrightarrow> palette_rle palette num_pixels pixels_in_tile (idx # ffs @ b # rest) pixel_data
                = palette_rle palette (num_pixels + int n) pixels_in_tile rest
                    (pixel_data @ concat (replicate n (palette ! unat (idx AND 0x7F)))))"
proof -
  have d: "\<And>pixel. do_rle pixel (ffs @ b # rest) pixel_data
           = Inr (n, rest, pixel_data @ concat (replicate n pixel))"
    unfolding assms(3) by (rule do_rle_run[OF assms(1,2)])
  have p: "palette_rle palette num_pixels pixels_in_tile (idx # ffs @ b # rest) pixel_data
                = palette_rle palette (num_pixels + int n) pixels_in_tile rest
                    (pixel_data @ concat (replicate n (palette ! unat (idx AND 0x7F))))"
    if "num_pixels < pixels_in_tile" "idx AND 0x80 \<noteq> 0" "unat (idx AND 0x7F) < length palette"
    using that
    by (simp add: palette_rle.simps[of palette num_pixels pixels_in_tile "idx # ffs @ b # rest"] d)
  from d p show ?thesis by blast
qed

text \<open>
  The run bytes \<open>FF FF 03\<close> make a run of 255 + 255 + 3 + 1 = 514 pixels. In a tile of 32
  by 32 pixels with a palette of two, the index byte \<open>0x81\<close> followed by them emits 514
  times the four bytes of entry 1, and \<open>0x80\<close>, \<open>FF FE\<close> the other 510 pixels, of entry
  0: 4096 bytes in all.
\<close>

theorem zrle_run_length_witness:
  "do_rle [0x40, 0x50, 0x60, 0xFF] [0xFF, 0xFF, 0x03, 0x80, 0xFF, 0xFE] []
     = Inr (514, [0x80, 0xFF, 0xFE], concat (replicate 514 [0x40, 0x50, 0x60, 0xFF]))
   \<and> rle_tile 0x82 1024
     ([0x10, 0x20, 0x30, 0x40, 0x50, 0x60] @ [0x81, 0xFF, 0xFF, 0x03, 0x80, 0xFF, 0xFE])
     = Inr (concat (replicate 514 [0x40, 0x50, 0x60, 0xFF])
              @ concat (replicate 510 [0x10, 0x20, 0x30, 0xFF]), [])
   \<and> length (concat (replicate 514 [0x40, 0x50, 0x60, 0xFF :: byte])) = 4 * 514
   \<and> length (concat (replicate 510 [0x10, 0x20, 0x30, 0xFF :: byte])) = 4 * 510"
proof -
  let ?pal = "[[0x10, 0x20, 0x30, 0xFF], [0x40, 0x50, 0x60, 0xFF :: byte]]"
  let ?p1 = "concat (replicate 514 [0x40, 0x50, 0x60, 0xFF :: byte])"
  let ?p0 = "concat (replicate 510 [0x10, 0x20, 0x30, 0xFF :: byte])"
  have a: "list_all (\<lambda>b. b = 255) [0xFF, 0xFF :: byte]" by simp
  have b: "(3 :: byte) \<noteq> 255" by simp
  have n: "(514 :: nat) = 1 + sum_list (map unat ([0xFF, 0xFF] @ [3 :: byte]))" by simp
  have pre: "(0 :: int) < 1024 \<and> (0x81 :: byte) AND 0x80 \<noteq> 0 \<and> unat ((0x81 :: byte) AND 0x7F) < length ?pal"
    by simp
  have sel: "?pal ! unat ((0x81 :: byte) AND 0x7F) = [0x40, 0x50, 0x60, 0xFF]"
    by simp
  note inst = zrle_run_length[OF a b n, of "[0x40, 0x50, 0x60, 0xFF]" "[0x80, 0xFF, 0xFE]" "[]" 0 1024 "0x81" ?pal]
  from inst have run: "do_rle [0x40, 0x50, 0x60, 0xFF] ([0xFF, 0xFF] @ 3 # [0x80, 0xFF, 0xFE]) []
      = Inr (514, [0x80, 0xFF, 0xFE], [] @ ?p1)"
    by (rule conjunct1)
  from inst pre have "palette_rle ?pal 0 1024 (0x81 # [0xFF, 0xFF] @ 3 # [0x80, 0xFF, 0xFE]) []
      = palette_rle ?pal (0 + int 514) 1024 [0x80, 0xFF, 0xFE]
          ([] @ concat (replicate 514 (?pal ! unat ((0x81 :: byte) AND 0x7F))))"
    by (elim conjE impE) (rule conjI | assumption)+
  then have step1: "palette_rle ?pal 0 1024 [0x81, 0xFF, 0xFF, 3, 0x80, 0xFF, 0xFE] []
      = palette_rle ?pal 514 1024 [0x80, 0xFF, 0xFE] ?p1"
    unfolding sel by simp
  have a2: "list_all (\<lambda>b. b = 255) [0xFF :: byte]" by simp
  have b2: "(0xFE :: byte) \<noteq> 255" by simp
  have run2: "do_rle [0x10, 0x20, 0x30, 0xFF] [0xFF, 0xFE] ?p1 = Inr (510, [], ?p1 @ ?p0)"
    using do_rle_run[OF a2 b2, of "[0x10, 0x20, 0x30, 0xFF]" "[]" ?p1]
    by simp
  have rest: "palette_rle ?pal 514 1024 [0x80, 0xFF, 0xFE] ?p1 = Inr (?p1 @ ?p0, [])"
    apply (subst palette_rle.simps)
    apply (simp add: run2)
    apply (subst palette_rle.simps)
    apply simp
    done
  have pal: "read_palette 2 [0x10, 0x20, 0x30, 0x40, 0x50, 0x60, 0x81, 0xFF, 0xFF, 0x03, 0x80, 0xFF, 0xFE]
      = Inr (?pal, [0x81, 0xFF, 0xFF, 0x03, 0x80, 0xFF, 0xFE])"
    by (simp add: numeral_2_eq_2 cpixel_def)
  have tile: "rle_tile 0x82 1024
     ([0x10, 0x20, 0x30, 0x40, 0x50, 0x60] @ [0x81, 0xFF, 0xFF, 0x03, 0x80, 0xFF, 0xFE])
     = Inr (?p1 @ ?p0, [])"
    using step1 rest by (simp add: rle_tile_def pal)
  have l1: "length ?p1 = 4 * 514" and l0: "length ?p0 = 4 * 510"
    by (simp_all add: length_concat sum_list_replicate)
  from run tile l1 l0 show ?thesis by simp
qed


subsection \<open>The client: empty updates, the pointer, the cursor\<close>


lemmas client_init_defs = VNCDoToolClient_init_def connect_def

text \<open>
  Claim C10. A call of the client's \<open>updateRectangle\<close> with an empty data byte string
  returns at once and leaves the client as it was: screen, cursor, pointer position and
  every other field.
\<close>

theorem updateRectangle_empty_data: "updateRectangle st x y width height [] = Inr st"
  by (simp add: updateRectangle_def)

theorem updateRectangle_empty_data_witness:
  "updateRectangle white_2x2 3 4 5 6 [] = Inr white_2x2"
  by (rule updateRectangle_empty_data)

lemma parse_BBHH: "parse_format ''!BBHH'' = Inr [FU8, FU8, FU16, FU16]"
  by (simp add: parse_format_def is_digit_char_def is_space_char_def fields_of_code_def ebind_def)

lemma pointerEvent_ok:
  assumes "0 \<le> x" "x \<le> 65535" "0 \<le> y" "y \<le> 65535" "0 \<le> m" "m \<le> 255"
  shows "pointerEvent st x y m = Inr (rfb_write st ([5, of_int m] @ be16 x @ be16 y))"
  using assms
  by (simp add: pointerEvent_def pack_def parse_BBHH ebind_def pack_int_def int_of_sval_def)

lemma range_5_10_5: "py_range 5 10 5 = Inr [5]"
  by (simp add: py_range_def)

lemma range_5_0_5: "py_range 5 0 5 = Inr []"
  by (simp add: py_range_def)

text \<open>
  Claim C9, as amended. \<open>mouseDrag(10, 0, step=5)\<close> with the tracked pointer at (0,0)
  emits pointer events at (5,0) and (10,0), in that order, with a pause of 200 ms after
  the first, and leaves the tracked pointer at (10,0). (The client is connected, so that
  it has a writer, and its button mask fits a byte.)
\<close>

theorem mouseDrag_10_0_step_5:
  assumes "self_x st = 0" and "self_y st = 0" and "writer st"
    and "0 \<le> buttons st" and "buttons st \<le> 255"
  shows "mouseDrag st 10 0 5 =
           Inr (st\<lparr>self_x := 10, self_y := 0,
                   io_log := io_log st @ [Write [5, of_int (buttons st), 0, 5, 0, 0], Sleep 200,
                                          Write [5, of_int (buttons st), 0, 10, 0, 0]]\<rparr>)"
  using assms
  by (simp add: mouseDrag_def range_5_10_5 range_5_0_5 ebind_def mouseMove_def pointerEvent_ok
      rfb_write_def be16_def sleep_def)

theorem mouseDrag_10_0_step_5_witness:
  "mouseDrag (connect VNCDoToolClient_init) 10 0 5 =
     Inr ((connect VNCDoToolClient_init)
            \<lparr>self_x := 10, self_y := 0,
             io_log := [Write [5, 0, 0, 5, 0, 0], Sleep 200, Write [5, 0, 0, 10, 0, 0]]\<rparr>)"
  using mouseDrag_10_0_step_5[of "connect VNCDoToolClient_init"]
  by (simp add: client_init_defs)


text \<open>No event is emitted at the starting position (0,0).\<close>

theorem mouseDrag_no_event_at_origin:
  "map_sum id (\<lambda>s. pointer_positions (io_log s)) (mouseDrag (connect VNCDoToolClient_init) 10 0 5)
     = Inr [(5, 0), (10, 0)]
   \<and> map_sum id (\<lambda>s. pointer_positions (io_log s)) (mouseDrag (connect VNCDoToolClient_init) 10 0 5)
     \<noteq> Inr [(0, 0), (5, 0), (10, 0)]"
  by (simp add: mouseDrag_def range_5_10_5 range_5_0_5 ebind_def mouseMove_def pointerEvent_ok
      rfb_write_def be16_def sleep_def client_init_defs be_uint_def)

lemma Image_new_empty: "Image_new (0, 0) c = Inr \<lparr>im_w = 0, im_h = 0, im_rows = []\<rparr>"
  by (simp add: Image_new_def)

text \<open>
  Claim C7 on the code. \<open>updateCursor\<close> with a zero width and height: the assignment
  \<open>self.cursor = None\<close> is not followed by a return, so the handler goes on, builds an
  image of size zero and stores it as the cursor, with a mask and the focus. The cursor
  is not \<open>None\<close> afterwards.
\<close>

theorem updateCursor_zero_size_not_cleared:
  "updateCursor (connect VNCDoToolClient_init) 0 0 0 0 [] []
     = Inr ((connect VNCDoToolClient_init)
             \<lparr>cursor := Some \<lparr>im_w = 0, im_h = 0, im_rows = []\<rparr>,
              cmask := Some \<lparr>im_w = 0, im_h = 0, im_rows = []\<rparr>,
              cfocus := Some (0, 0)\<rparr>)
   \<and> cursor ((connect VNCDoToolClient_init)
             \<lparr>cursor := Some \<lparr>im_w = 0, im_h = 0, im_rows = []\<rparr>,
              cmask := Some \<lparr>im_w = 0, im_h = 0, im_rows = []\<rparr>,
              cfocus := Some (0, 0)\<rparr>) \<noteq> None"
  by (simp add: updateCursor_def frombytes_RGB_def frombytes_1_def Image_new_empty ebind_def
      drawCursor_def client_init_defs)

lemma updateCursor_zero_size_general:
  assumes "\<not> nocursor st" and "width = 0 \<or> height = 0" and "0 \<le> width" and "0 \<le> height"
  shows "\<exists>st'. updateCursor st x y width height image_data mask_data = Inr st' \<and> cursor st' \<noteq> None"
  using assms
  by (auto simp add: updateCursor_def frombytes_RGB_def frombytes_1_def Image_new_def ebind_def
      drawCursor_def paste_mask_def Let_def split: option.splits)

text \<open>
  For a width and height that are not zero the cursor is replaced by the decoded image,
  mask and focus and drawn at once.
\<close>

lemma updateCursor_replaces:
  assumes "\<not> nocursor st" and "width \<noteq> 0" and "height \<noteq> 0"
    and "frombytes_RGB (width, height) image_data (image_mode st) = Inr cur"
    and "frombytes_1 (width, height) mask_data = Inr m"
  shows "updateCursor st x y width height image_data mask_data
           = drawCursor (st\<lparr>cursor := Some cur, cmask := Some m, cfocus := Some (x, y)\<rparr>)"
  using assms by (simp add: updateCursor_def ebind_def)


subsection \<open>The client: the size of the screen\<close>


lemma getpixel_new:
  "0 \<le> w \<Longrightarrow> 0 \<le> h \<Longrightarrow> Image_new (w, h) c = Inr im \<Longrightarrow> x < nat w \<Longrightarrow> y < nat h \<Longrightarrow>
   getpixel im (x, y) = c"
  by (auto simp: Image_new_def getpixel_def)

lemma paste_size: "im_w (paste dst src box) = im_w dst" "im_h (paste dst src box) = im_h dst"
  by (simp_all add: paste_def)

lemma getpixel_paste:
  "x < im_w dst \<Longrightarrow> y < im_h dst \<Longrightarrow>
   getpixel (paste dst src box) (x, y) =
     (if covers src box x y then getpixel src (nat (int x - fst box), nat (int y - snd box))
      else getpixel dst (x, y))"
  by (simp add: paste_def getpixel_def)

lemma updateDesktopSize_step:
  assumes v: "valid_desktop_size (w, h)"
  shows "\<exists>st' scr. updateDesktopSize st w h = Inr st' \<and> screen st' = Some scr
           \<and> im_w scr = nat w \<and> im_h scr = nat h
           \<and> (\<forall>x<nat w. \<forall>y<nat h. getpixel scr (x, y) =
                (case screen st of
                   None \<Rightarrow> black
                 | Some old \<Rightarrow> if x < im_w old \<and> y < im_h old then getpixel old (x, y) else black))"
proof -
  define new where "new = \<lparr>im_w = nat w, im_h = nat h, im_rows = replicate (nat h) (replicate (nat w) black)\<rparr>"
  have n: "Image_new (w, h) black = Inr new"
    using v by (simp add: Image_new_def valid_desktop_size_def new_def)
  have nsz: "im_w new = nat w" "im_h new = nat h" by (simp_all add: new_def)
  have npx: "\<And>x y. x < nat w \<Longrightarrow> y < nat h \<Longrightarrow> getpixel new (x, y) = black"
    by (simp add: new_def getpixel_def)
  define scr where "scr = (case screen st of None \<Rightarrow> new | Some old \<Rightarrow> paste new old (0, 0))"
  have run: "updateDesktopSize st w h = Inr (st\<lparr>screen := Some scr\<rparr>)"
    using v by (simp add: updateDesktopSize_def valid_desktop_size_def n ebind_def scr_def)
  have sz: "im_w scr = nat w" "im_h scr = nat h"
    by (simp_all add: scr_def nsz paste_size split: option.splits)
  have px: "getpixel scr (x, y) =
      (case screen st of
         None \<Rightarrow> black
       | Some old \<Rightarrow> if x < im_w old \<and> y < im_h old then getpixel old (x, y) else black)"
    if "x < nat w" "y < nat h" for x y
    using that by (simp add: scr_def npx getpixel_paste nsz covers_def split: option.splits)
  from run sz px show ?thesis by auto
qed

lemma updateDesktopSizes_last:
  assumes "list_all valid_desktop_size whs" and "whs \<noteq> []"
  shows "\<exists>st' scr. updateDesktopSizes st whs = Inr st' \<and> screen st' = Some scr
           \<and> (int (im_w scr), int (im_h scr)) = last whs"
  using assms
proof (induction whs arbitrary: st)
  case Nil
  then show ?case by simp
next
  case (Cons wh rest)
  obtain w h where wh: "wh = (w, h)" by (cases wh)
  from Cons.prems have v: "valid_desktop_size (w, h)" by (simp add: wh)
  from updateDesktopSize_step[OF v, of st]
  obtain st1 scr1 where s1: "updateDesktopSize st w h = Inr st1" "screen st1 = Some scr1"
      "im_w scr1 = nat w" "im_h scr1 = nat h"
    by blast
  show ?case
  proof (cases rest)
    case Nil
    with s1 v show ?thesis by (simp add: wh valid_desktop_size_def)
  next
    case (Cons a list)
    with Cons.prems Cons.IH[of st1] s1 show ?thesis by (simp add: wh)
  qed
qed


lemma drawCursor_size:
  "drawCursor st = Inr st' \<Longrightarrow> screen st = Some scr \<Longrightarrow>
   \<exists>scr'. screen st' = Some scr' \<and> im_w scr' = im_w scr \<and> im_h scr' = im_h scr"
  by (auto simp: drawCursor_def paste_def paste_mask_def ebind_def Let_def
      split: option.splits if_splits)

lemma mouseMove_screen: "mouseMove st x y = Inr st' \<Longrightarrow> screen st' = screen st"
  by (auto simp: mouseMove_def pointerEvent_def ebind_def rfb_write_def split: sum.splits if_splits)

lemma updateRectangle_never_shrinks:
  assumes run: "updateRectangle st x y width height data = Inr st'" and old: "screen st = Some old"
  shows "\<exists>new. screen st' = Some new \<and> im_w old \<le> im_w new \<and> im_h old \<le> im_h new"
proof (cases "data = []")
  case True
  with run old show ?thesis by (simp add: updateRectangle_def)
next
  case False
  from run False obtain st1 update st2 where
    m: "(if width \<noteq> int (im_w old) \<or> height \<noteq> int (im_h old)
         then ebind (mouseMove st width height) (\<lambda>s. mouseMove s 0 0) else Inr st) = Inr st1"
    and u: "frombytes_RGB (width, height) data (image_mode st1) = Inr update"
    and p: "(case screen st1 of
                 None \<Rightarrow> Inr (st1\<lparr>screen := Some update\<rparr>)
               | Some scr \<Rightarrow>
                   if int (im_w scr) < x + width \<or> int (im_h scr) < y + height
                   then ebind (Image_new (max (x + width) (int (im_w scr)),
                                          max (y + height) (int (im_h scr))) black)
                          (\<lambda>new_screen.
                             Inr (st1\<lparr>screen := Some (paste (paste new_screen scr (0, 0)) update (x, y))\<rparr>))
                   else Inr (st1\<lparr>screen := Some (paste scr update (x, y))\<rparr>)) = Inr st2"
    and d: "drawCursor st2 = Inr st'"
    by (auto simp: updateRectangle_def old ebind_def split: sum.splits)
  have s1: "screen st1 = Some old"
  proof (cases "width \<noteq> int (im_w old) \<or> height \<noteq> int (im_h old)")
    case True
    with m obtain sa where a: "mouseMove st width height = Inr sa" and b: "mouseMove sa 0 0 = Inr st1"
      by (auto simp: ebind_def split: sum.splits)
    from mouseMove_screen[OF a] mouseMove_screen[OF b] old show ?thesis by simp
  next
    case False
    with m old show ?thesis by simp
  qed
  from p s1 obtain mid where mid: "screen st2 = Some mid" "im_w old \<le> im_w mid" "im_h old \<le> im_h mid"
    by (auto simp: ebind_def Image_new_def paste_def split: if_splits)
  from drawCursor_size[OF d mid(1)] mid show ?thesis by auto
qed

text \<open>
  Claim C6, as amended. After any sequence of \<open>updateDesktopSize\<close> calls with sizes in
  \<open>[0, 0x10000)\<close> the width and height of the screen are the arguments of the last call.
  One call keeps the pixel at \<open>(x, y)\<close> of the screen before it wherever
  \<open>x < min w_old w\<close> and \<open>y < min h_old h\<close>, and every other position of the new
  screen is black. A call can make the screen smaller: the resize that is monotone upward
  is the one of \<open>updateRectangle\<close>, which never makes the screen smaller.
\<close>

theorem updateDesktopSize_resizes:
  "(list_all valid_desktop_size whs \<and> whs \<noteq> [] \<longrightarrow>
      (\<exists>st' scr. updateDesktopSizes st whs = Inr st' \<and> screen st' = Some scr
          \<and> (int (im_w scr), int (im_h scr)) = last whs))
   \<and> (valid_desktop_size (w, h) \<longrightarrow>
      (\<exists>st' scr. updateDesktopSize st w h = Inr st' \<and> screen st' = Some scr
          \<and> im_w scr = nat w \<and> im_h scr = nat h
          \<and> (\<forall>x<nat w. \<forall>y<nat h. getpixel scr (x, y) =
                (case screen st of
                   None \<Rightarrow> black
                 | Some old \<Rightarrow> if x < im_w old \<and> y < im_h old then getpixel old (x, y) else black))))
   \<and> (updateRectangle st x0 y0 width height data = Inr st2 \<and> screen st = Some old0 \<longrightarrow>
      (\<exists>new. screen st2 = Some new \<and> im_w old0 \<le> im_w new \<and> im_h old0 \<le> im_h new))"
  using updateDesktopSizes_last[of whs st] updateDesktopSize_step[of w h st]
    updateRectangle_never_shrinks[of st x0 y0 width height data st2 old0]
  by blast

lemma upt_2: "[0..<2] = [0, 1]" "[0..<Suc 0] = [0]" "[0..<3] = [0, 1, 2]"
  by (simp_all add: upt_rec)

lemma white_2x2_written:
  "updateRectangle (connect VNCDoToolClient_init) 0 0 2 2 (replicate 16 0xFF) = Inr white_2x2"
  by (simp add: updateRectangle_def client_init_defs ebind_def frombytes_RGB_def upt_2
      drawCursor_def white_2x2_def white_def numeral_eq_Suc)

text \<open>
  A screen of two by two white pixels, written by \<open>updateRectangle\<close>: a resize to one
  by one makes it smaller, and after a resize back to two by two the pixel at (1,1) is
  black.
\<close>

theorem updateDesktopSize_shrinks:
  "updateDesktopSize white_2x2 1 1
     = Inr ((connect VNCDoToolClient_init)\<lparr>screen := Some \<lparr>im_w = 1, im_h = 1, im_rows = [[white]]\<rparr>\<rparr>)
   \<and> updateDesktopSizes white_2x2 [(1, 1), (2, 2)]
     = Inr ((connect VNCDoToolClient_init)
             \<lparr>screen := Some \<lparr>im_w = 2, im_h = 2, im_rows = [[white, black], [black, black]]\<rparr>\<rparr>)"
  by (simp add: updateDesktopSize_def MAX_DESKTOP_SIZE_def Image_new_def ebind_def paste_def
      covers_def getpixel_def white_2x2_def upt_2 numeral_2_eq_2)

theorem updateDesktopSize_resizes_witness:
  "list_all valid_desktop_size [(2, 2), (3, 1)] \<and> valid_desktop_size (3, 1)
   \<and> (\<exists>st' scr. updateDesktopSizes (connect VNCDoToolClient_init) [(2, 2), (3, 1)] = Inr st'
         \<and> screen st' = Some scr \<and> im_w scr = 3 \<and> im_h scr = 1)
   \<and> (\<exists>st' scr. updateDesktopSize white_2x2 3 1 = Inr st' \<and> screen st' = Some scr
         \<and> getpixel scr (1, 0) = white \<and> getpixel scr (2, 0) = black)"
proof -
  have v: "list_all valid_desktop_size [(2, 2), (3, 1)]" "valid_desktop_size (3, 1)"
    by (simp_all add: valid_desktop_size_def MAX_DESKTOP_SIZE_def)
  have ne: "[(2, 2), (3, 1 :: int)] \<noteq> ([] :: (int \<times> int) list)" by simp
  from updateDesktopSize_resizes[of "[(2, 2), (3, 1)]" "connect VNCDoToolClient_init" 3 1] v ne
  have a: "\<exists>st' scr. updateDesktopSizes (connect VNCDoToolClient_init) [(2, 2), (3, 1)] = Inr st'
         \<and> screen st' = Some scr \<and> im_w scr = 3 \<and> im_h scr = 1"
    by auto
  from updateDesktopSize_resizes[of "[]" white_2x2 3 1] v
  obtain st' scr where s: "updateDesktopSize white_2x2 3 1 = Inr st'" "screen st' = Some scr"
    and px: "\<forall>x<nat 3. \<forall>y<nat 1. getpixel scr (x, y) =
                (case screen white_2x2 of
                   None \<Rightarrow> black
                 | Some old \<Rightarrow> if x < im_w old \<and> y < im_h old then getpixel old (x, y) else black)"
    by blast
  from px have "getpixel scr (1, 0) = white" "getpixel scr (2, 0) = black"
    by (simp_all add: white_2x2_def getpixel_def)
  with s a v show ?thesis by blast
qed


end
